theory Spec2Isabelle
  imports Complex_Main
begin

section \<open>The spring-mass engine of \<^verbatim>\<open>src/lib/physics/physics.py\<close>\<close>

text \<open>
  The engine is a Python dataclass \<^verbatim>\<open>SpringEngine\<close> holding six parameters and five
  state fields, with three methods: \<^verbatim>\<open>step\<close> (which dispatches to \<^verbatim>\<open>_step_1d\<close> or
  \<^verbatim>\<open>_step_2d\<close>) and \<^verbatim>\<open>get_analytical_solution\<close>.

  Two models of the code are given. In the first, Python floats are exact reals; it is
  used for the claims about which formula the code computes and which path it takes (the
  Runge-Kutta composition, the force law, the dispatch on the mode, the time stamp), which
  rounding changes in the last bits only. The second, further down, takes floats as IEEE
  binary64 values with rounding, infinities and NaN; it is used for the claims about
  raising, finiteness and NaN, which hold or fail by overflow and underflow.
  What Python raises is kept in both: float division by zero raises
  \<^verbatim>\<open>ZeroDivisionError\<close>, \<^verbatim>\<open>math.sqrt\<close> of a negative number raises \<^verbatim>\<open>ValueError\<close>, and
  \<^verbatim>\<open>**\<close> raises \<^verbatim>\<open>OverflowError\<close> when it overflows. A method that mutates \<^verbatim>\<open>self\<close> returns
  the updated engine.
\<close>

subsection \<open>Errors, float primitives\<close>

datatype error = ZeroDivisionError | ValueError | OverflowError

definition bind_err :: "error + 'a \<Rightarrow> ('a \<Rightarrow> error + 'b) \<Rightarrow> error + 'b" where
  "bind_err r f = (case r of Inl err \<Rightarrow> Inl err | Inr v \<Rightarrow> f v)"

text \<open>Python's \<^verbatim>\<open>a / b\<close> on floats.\<close>

definition fdiv :: "real \<Rightarrow> real \<Rightarrow> error + real" where
  "fdiv a b = (if b = 0 then Inl ZeroDivisionError else Inr (a / b))"

text \<open>\<^verbatim>\<open>math.sqrt\<close> and \<^verbatim>\<open>math.hypot\<close>.\<close>

definition math_sqrt :: "real \<Rightarrow> error + real" where
  "math_sqrt a = (if a < 0 then Inl ValueError else Inr (sqrt a))"

definition math_hypot :: "real \<Rightarrow> real \<Rightarrow> real" where
  "math_hypot a b = sqrt (a * a + b * b)"

text \<open>The literal \<^verbatim>\<open>1e-9\<close>.\<close>

definition tiny :: real where
  "tiny = 1 / 10 ^ 9"

subsection \<open>The dataclass\<close>

record SpringEngine =
  m :: real
  k :: real
  c :: real
  g :: real
  L0 :: real
  mode :: string
  x :: real
  y :: real
  vx :: real
  vy :: real
  t :: real

text \<open>
  The constructor generated by \<^verbatim>\<open>@dataclass\<close>: the class has no \<^verbatim>\<open>__post_init__\<close>, so
  each argument is stored as given and nothing is raised.
\<close>

definition SpringEngine_init ::
  "real \<Rightarrow> real \<Rightarrow> real \<Rightarrow> real \<Rightarrow> real \<Rightarrow> string \<Rightarrow> real \<Rightarrow> real \<Rightarrow> real \<Rightarrow> real \<Rightarrow> real
    \<Rightarrow> error + SpringEngine" where
  "SpringEngine_init m_arg k_arg c_arg g_arg L0_arg mode_arg x_arg y_arg vx_arg vy_arg t_arg =
     Inr \<lparr>m = m_arg, k = k_arg, c = c_arg, g = g_arg, L0 = L0_arg, mode = mode_arg,
          x = x_arg, y = y_arg, vx = vx_arg, vy = vy_arg, t = t_arg\<rparr>"

subsection \<open>\<^verbatim>\<open>_step_1d\<close>\<close>

definition force :: "SpringEngine \<Rightarrow> real \<Rightarrow> real \<Rightarrow> error + real" where
  "force e px pv = fdiv (- k e * px - c e * pv) (m e)"

definition step_1d :: "SpringEngine \<Rightarrow> real \<Rightarrow> error + SpringEngine" where
  "step_1d e dt =
     bind_err (force e (x e) (vx e)) (\<lambda>k1_v.
     let k1_x = vx e in
     bind_err (force e (x e + k1_x * dt / 2) (vx e + k1_v * dt / 2)) (\<lambda>k2_v.
     let k2_x = vx e + k1_v * dt / 2 in
     bind_err (force e (x e + k2_x * dt / 2) (vx e + k2_v * dt / 2)) (\<lambda>k3_v.
     let k3_x = vx e + k2_v * dt / 2 in
     bind_err (force e (x e + k3_x * dt) (vx e + k3_v * dt)) (\<lambda>k4_v.
     let k4_x = vx e + k3_v * dt in
     Inr (e\<lparr>x := x e + dt * (k1_x + 2 * k2_x + 2 * k3_x + k4_x) / 6,
            vx := vx e + dt * (k1_v + 2 * k2_v + 2 * k3_v + k4_v) / 6,
            t := t e + dt\<rparr>)))))"

subsection \<open>\<^verbatim>\<open>_step_2d\<close>\<close>

definition forces :: "SpringEngine \<Rightarrow> real \<Rightarrow> real \<Rightarrow> real \<Rightarrow> real \<Rightarrow> error + real \<times> real" where
  "forces e px py pvx pvy =
     (let r = math_hypot px py in
      bind_err (if r < tiny then Inr (0, 1)
                else bind_err (fdiv px r) (\<lambda>ux. bind_err (fdiv py r) (\<lambda>uy. Inr (ux, uy))))
        (\<lambda>(ux, uy).
      let F_spring = - k e * (r - L0 e);
          v_radial = pvx * ux + pvy * uy;
          F_damp = - c e * v_radial;
          Fx = (F_spring + F_damp) * ux;
          Fy = (F_spring + F_damp) * uy + m e * g e
      in bind_err (fdiv Fx (m e)) (\<lambda>ax. bind_err (fdiv Fy (m e)) (\<lambda>ay. Inr (ax, ay)))))"

definition step_2d :: "SpringEngine \<Rightarrow> real \<Rightarrow> error + SpringEngine" where
  "step_2d e dt =
     bind_err (forces e (x e) (y e) (vx e) (vy e)) (\<lambda>(k1_ax, k1_ay).
     let k1_vx = vx e; k1_vy = vy e in
     bind_err (forces e (x e + k1_vx * dt / 2) (y e + k1_vy * dt / 2)
                        (vx e + k1_ax * dt / 2) (vy e + k1_ay * dt / 2)) (\<lambda>(k2_ax, k2_ay).
     let k2_vx = vx e + k1_ax * dt / 2; k2_vy = vy e + k1_ay * dt / 2 in
     bind_err (forces e (x e + k2_vx * dt / 2) (y e + k2_vy * dt / 2)
                        (vx e + k2_ax * dt / 2) (vy e + k2_ay * dt / 2)) (\<lambda>(k3_ax, k3_ay).
     let k3_vx = vx e + k2_ax * dt / 2; k3_vy = vy e + k2_ay * dt / 2 in
     bind_err (forces e (x e + k3_vx * dt) (y e + k3_vy * dt)
                        (vx e + k3_ax * dt) (vy e + k3_ay * dt)) (\<lambda>(k4_ax, k4_ay).
     let k4_vx = vx e + k3_ax * dt; k4_vy = vy e + k3_ay * dt in
     Inr (e\<lparr>x := x e + dt * (k1_vx + 2 * k2_vx + 2 * k3_vx + k4_vx) / 6,
            y := y e + dt * (k1_vy + 2 * k2_vy + 2 * k3_vy + k4_vy) / 6,
            vx := vx e + dt * (k1_ax + 2 * k2_ax + 2 * k3_ax + k4_ax) / 6,
            vy := vy e + dt * (k1_ay + 2 * k2_ay + 2 * k3_ay + k4_ay) / 6,
            t := t e + dt\<rparr>)))))"

subsection \<open>\<^verbatim>\<open>step\<close>\<close>

text \<open>The dictionary that \<^verbatim>\<open>step\<close> returns, in the order the source writes its keys.\<close>

definition state_dict :: "SpringEngine \<Rightarrow> (string \<times> real) list" where
  "state_dict e = [(''x'', x e), (''y'', y e), (''vx'', vx e), (''vy'', vy e), (''t'', t e)]"

definition step :: "SpringEngine \<Rightarrow> real \<Rightarrow> error + SpringEngine \<times> (string \<times> real) list" where
  "step e dt =
     bind_err (if mode e = ''1D'' then step_1d e dt else step_2d e dt)
       (\<lambda>e'. Inr (e', state_dict e'))"

text \<open>
  The driver loop of the file's self-test (\<^verbatim>\<open>for i in range(n): engine.step(dt)\<close>): the
  engine after \<open>n\<close> calls, or the first error.
\<close>

fun run_steps :: "nat \<Rightarrow> real \<Rightarrow> SpringEngine \<Rightarrow> error + SpringEngine" where
  "run_steps 0 dt e = Inr e"
| "run_steps (Suc n) dt e = bind_err (step e dt) (\<lambda>(e', d). run_steps n dt e')"

subsection \<open>\<^verbatim>\<open>get_analytical_solution\<close>\<close>

text \<open>The values of the returned dictionary: the case tag is a string, the rest floats.\<close>

datatype pyval = PStr string | PFloat real

definition get_analytical_solution :: "SpringEngine \<Rightarrow> error + (string \<times> pyval) list" where
  "get_analytical_solution e =
     bind_err (fdiv (k e) (m e)) (\<lambda>q.
     bind_err (math_sqrt q) (\<lambda>omega_n.
     bind_err (math_sqrt (k e * m e)) (\<lambda>s.
     bind_err (fdiv (c e) (2 * s)) (\<lambda>zeta.
     bind_err (if mode e = ''1D'' then Inr (x e, vx e)
               else (let r_current = math_hypot (x e) (y e) in
                     if r_current > tiny
                     then bind_err (fdiv (vx e * x e + vy e * y e) r_current)
                            (\<lambda>v0. Inr (r_current, v0))
                     else Inr (r_current, 0)))
       (\<lambda>(x0, v0).
     if zeta < 1 then
       bind_err (math_sqrt (1 - zeta ^ 2)) (\<lambda>sq.
       let omega_d = omega_n * sq; A = x0 in
       bind_err (fdiv (v0 + zeta * omega_n * x0) omega_d) (\<lambda>B.
       Inr [(''case'', PStr ''underdamped''), (''omega_n'', PFloat omega_n),
            (''omega_d'', PFloat omega_d), (''zeta'', PFloat zeta),
            (''A'', PFloat A), (''B'', PFloat B)]))
     else if \<bar>zeta - 1\<bar> < tiny then
       (let A = x0; B = v0 + omega_n * x0 in
        Inr [(''case'', PStr ''critical''), (''omega_n'', PFloat omega_n),
             (''zeta'', PFloat zeta), (''A'', PFloat A), (''B'', PFloat B)])
     else
       bind_err (math_sqrt (zeta ^ 2 - 1)) (\<lambda>sqrt_term.
       let r1 = - omega_n * (zeta - sqrt_term);
           r2 = - omega_n * (zeta + sqrt_term);
           det = r2 - r1
       in bind_err (fdiv (r2 * x0 - v0) det) (\<lambda>A.
          bind_err (fdiv (v0 - r1 * x0) det) (\<lambda>B.
          Inr [(''case'', PStr ''overdamped''), (''omega_n'', PFloat omega_n),
               (''zeta'', PFloat zeta), (''r1'', PFloat r1), (''r2'', PFloat r2),
               (''A'', PFloat A), (''B'', PFloat B)]))))))))"

text \<open>The regime a call reports: the string under the key \<^verbatim>\<open>"case"\<close>, if the call returns.\<close>

definition reported_case :: "error + (string \<times> pyval) list \<Rightarrow> string option" where
  "reported_case r =
     (case r of Inl err \<Rightarrow> None
      | Inr d \<Rightarrow> (case map_of d ''case'' of Some (PStr s) \<Rightarrow> Some s | _ \<Rightarrow> None))"

section \<open>The same code over IEEE binary64 floats\<close>

text \<open>
  Whether a call raises, and whether a result is finite or NaN, depends on overflow,
  underflow and rounding, which exact reals do not have. For the claims about these the
  code is modelled a second time, every arithmetic operation being the IEEE operation of
  Python's \<^verbatim>\<open>float\<close>: the exact result rounded to the nearest double, ties to even,
  overflowing to an infinity; infinities and NaN propagate as IEEE prescribes; and Python
  raises \<^verbatim>\<open>ZeroDivisionError\<close> for \<^verbatim>\<open>/\<close> by zero, \<^verbatim>\<open>ValueError\<close> for \<^verbatim>\<open>math.sqrt\<close> of a
  negative number and \<^verbatim>\<open>OverflowError\<close> when \<^verbatim>\<open>**\<close> overflows.
\<close>

subsection \<open>Rounding to the nearest double\<close>

text \<open>
  \<open>pow2 i\<close> is \<open>2^i\<close> for an integer \<open>i\<close>. \<open>rne\<close> rounds a real to the nearest integer,
  a tie to the even one. The doubles in the binade of \<open>v\<close> are the multiples of
  \<open>ulp v = 2^(e - 52)\<close>, where \<open>e\<close> is the exponent of \<open>v\<close>, not below \<open>-1022\<close> (below
  \<open>2^-1022\<close> the doubles are the subnormal multiples of \<open>2^-1074\<close>). \<open>nearest v\<close> is
  the multiple of \<open>ulp v\<close> nearest to \<open>v\<close>.
\<close>

definition pow2 :: "int \<Rightarrow> real" where
  "pow2 i = 2 powr of_int i"

definition rne :: "real \<Rightarrow> int" where
  "rne v = (let f = \<lfloor>v\<rfloor>; d = v - of_int f
            in if d < 1 / 2 then f else if 1 / 2 < d then f + 1
               else if even f then f else f + 1)"

definition expo :: "real \<Rightarrow> int" where
  "expo v = max \<lfloor>log 2 \<bar>v\<bar>\<rfloor> (- 1022)"

definition ulp :: "real \<Rightarrow> real" where
  "ulp v = pow2 (expo v - 52)"

definition nearest :: "real \<Rightarrow> real" where
  "nearest v = (if v = 0 then 0 else of_int (rne (v / ulp v)) * ulp v)"

subsection \<open>Values and operations\<close>

text \<open>
  A float is a finite double, an infinity or NaN. The sign of a zero is not kept: \<open>Fin 0\<close>
  stands for both \<^verbatim>\<open>0.0\<close> and \<^verbatim>\<open>-0.0\<close>, which Python's comparisons do not tell apart and
  which no operation of this code treats differently. \<open>round64\<close> is the IEEE rounding of
  an exact result: a value that rounds to \<open>2^1024\<close> in magnitude (that is, a value of
  at least \<open>2^1024 - 2^970\<close>) becomes an infinity.
\<close>

datatype f64 = Fin real | PInf | NInf | NaN

definition round64 :: "real \<Rightarrow> f64" where
  "round64 v = (let r = nearest v
                in if pow2 1024 \<le> r then PInf else if r \<le> - pow2 1024 then NInf else Fin r)"

text \<open>Unary minus, \<^verbatim>\<open>abs\<close>, \<^verbatim>\<open>+\<close>, \<^verbatim>\<open>-\<close> and \<^verbatim>\<open>*\<close>.\<close>

fun f_neg :: "f64 \<Rightarrow> f64" where
  "f_neg (Fin r) = Fin (- r)"
| "f_neg PInf = NInf"
| "f_neg NInf = PInf"
| "f_neg NaN = NaN"

fun f_abs :: "f64 \<Rightarrow> f64" where
  "f_abs (Fin r) = Fin \<bar>r\<bar>"
| "f_abs PInf = PInf"
| "f_abs NInf = PInf"
| "f_abs NaN = NaN"

fun f_add :: "f64 \<Rightarrow> f64 \<Rightarrow> f64" where
  "f_add (Fin r) (Fin s) = round64 (r + s)"
| "f_add NaN b = NaN"
| "f_add a NaN = NaN"
| "f_add PInf NInf = NaN"
| "f_add NInf PInf = NaN"
| "f_add PInf b = PInf"
| "f_add a PInf = PInf"
| "f_add NInf b = NInf"
| "f_add a NInf = NInf"

definition f_sub :: "f64 \<Rightarrow> f64 \<Rightarrow> f64" where
  "f_sub a b = f_add a (f_neg b)"

fun f_mul :: "f64 \<Rightarrow> f64 \<Rightarrow> f64" where
  "f_mul (Fin r) (Fin s) = round64 (r * s)"
| "f_mul NaN b = NaN"
| "f_mul a NaN = NaN"
| "f_mul (Fin r) PInf = (if r = 0 then NaN else if 0 < r then PInf else NInf)"
| "f_mul (Fin r) NInf = (if r = 0 then NaN else if 0 < r then NInf else PInf)"
| "f_mul PInf (Fin s) = (if s = 0 then NaN else if 0 < s then PInf else NInf)"
| "f_mul NInf (Fin s) = (if s = 0 then NaN else if 0 < s then NInf else PInf)"
| "f_mul PInf PInf = PInf"
| "f_mul PInf NInf = NInf"
| "f_mul NInf PInf = NInf"
| "f_mul NInf NInf = PInf"

text \<open>
  \<^verbatim>\<open>a / b\<close>: Python raises for a zero divisor whatever the dividend is, also for an
  infinity or NaN. \<open>f_over a s\<close> is the division by a literal \<open>s\<close> that is not zero (the
  code divides by \<^verbatim>\<open>2\<close> and \<^verbatim>\<open>6\<close>), which cannot raise.
\<close>

fun f_div :: "f64 \<Rightarrow> f64 \<Rightarrow> error + f64" where
  "f_div a (Fin s) =
     (if s = 0 then Inl ZeroDivisionError
      else Inr (case a of Fin r \<Rightarrow> round64 (r / s)
                | PInf \<Rightarrow> (if 0 < s then PInf else NInf)
                | NInf \<Rightarrow> (if 0 < s then NInf else PInf)
                | NaN \<Rightarrow> NaN))"
| "f_div NaN b = Inr NaN"
| "f_div a NaN = Inr NaN"
| "f_div (Fin r) b = Inr (Fin 0)"
| "f_div a b = Inr NaN"

definition f_over :: "f64 \<Rightarrow> real \<Rightarrow> f64" where
  "f_over a s = (case a of Fin r \<Rightarrow> round64 (r / s) | PInf \<Rightarrow> PInf | NInf \<Rightarrow> NInf | NaN \<Rightarrow> NaN)"

text \<open>\<^verbatim>\<open>a < b\<close>: false whenever a side is NaN.\<close>

fun f_lt :: "f64 \<Rightarrow> f64 \<Rightarrow> bool" where
  "f_lt (Fin r) (Fin s) = (r < s)"
| "f_lt NaN b = False"
| "f_lt a NaN = False"
| "f_lt PInf b = False"
| "f_lt a NInf = False"
| "f_lt a b = True"

text \<open>
  \<^verbatim>\<open>math.sqrt\<close> is the correctly rounded IEEE square root. \<^verbatim>\<open>math.hypot\<close> and
  \<^verbatim>\<open>zeta**2\<close> are library functions, accurate to about an ulp; they are taken here as
  correctly rounded, and the theorems below use of them only bounds that hold of any
  result within an ulp. \<^verbatim>\<open>math.hypot\<close> returns an infinity when it overflows or when an
  argument is infinite (also when the other is NaN); \<^verbatim>\<open>**\<close> raises \<^verbatim>\<open>OverflowError\<close> when
  the square of a finite float overflows.
\<close>

fun math_sqrt_f :: "f64 \<Rightarrow> error + f64" where
  "math_sqrt_f (Fin r) = (if r < 0 then Inl ValueError else Inr (round64 (sqrt r)))"
| "math_sqrt_f PInf = Inr PInf"
| "math_sqrt_f NInf = Inl ValueError"
| "math_sqrt_f NaN = Inr NaN"

fun math_hypot_f :: "f64 \<Rightarrow> f64 \<Rightarrow> f64" where
  "math_hypot_f (Fin r) (Fin s) = round64 (sqrt (r * r + s * s))"
| "math_hypot_f PInf b = PInf"
| "math_hypot_f NInf b = PInf"
| "math_hypot_f a PInf = PInf"
| "math_hypot_f a NInf = PInf"
| "math_hypot_f a b = NaN"

fun f_square :: "f64 \<Rightarrow> error + f64" where
  "f_square (Fin r) = (case round64 (r * r) of Fin s \<Rightarrow> Inr (Fin s) | _ \<Rightarrow> Inl OverflowError)"
| "f_square PInf = Inr PInf"
| "f_square NInf = Inr PInf"
| "f_square NaN = Inr NaN"

text \<open>The literal \<^verbatim>\<open>1e-9\<close>: the double nearest to \<open>10^-9\<close>.\<close>

definition tiny_f :: f64 where
  "tiny_f = round64 (1 / 10 ^ 9)"

subsection \<open>The engine over floats\<close>

text \<open>
  The dataclass and its methods once more, each line as before with the float operation
  in place of the real one; the names carry the suffix \<open>_f\<close>.
\<close>

record SpringEngine_f =
  m_f :: f64
  k_f :: f64
  c_f :: f64
  g_f :: f64
  L0_f :: f64
  mode_f :: string
  x_f :: f64
  y_f :: f64
  vx_f :: f64
  vy_f :: f64
  t_f :: f64

definition force_f :: "SpringEngine_f \<Rightarrow> f64 \<Rightarrow> f64 \<Rightarrow> error + f64" where
  "force_f e px pv = f_div (f_sub (f_mul (f_neg (k_f e)) px) (f_mul (c_f e) pv)) (m_f e)"

definition step_1d_f :: "SpringEngine_f \<Rightarrow> f64 \<Rightarrow> error + SpringEngine_f" where
  "step_1d_f e dt =
     bind_err (force_f e (x_f e) (vx_f e)) (\<lambda>k1_v.
     let k1_x = vx_f e in
     bind_err (force_f e (f_add (x_f e) (f_over (f_mul k1_x dt) 2))
                         (f_add (vx_f e) (f_over (f_mul k1_v dt) 2))) (\<lambda>k2_v.
     let k2_x = f_add (vx_f e) (f_over (f_mul k1_v dt) 2) in
     bind_err (force_f e (f_add (x_f e) (f_over (f_mul k2_x dt) 2))
                         (f_add (vx_f e) (f_over (f_mul k2_v dt) 2))) (\<lambda>k3_v.
     let k3_x = f_add (vx_f e) (f_over (f_mul k2_v dt) 2) in
     bind_err (force_f e (f_add (x_f e) (f_mul k3_x dt))
                         (f_add (vx_f e) (f_mul k3_v dt))) (\<lambda>k4_v.
     let k4_x = f_add (vx_f e) (f_mul k3_v dt) in
     Inr (e\<lparr>x_f := f_add (x_f e) (f_over (f_mul dt
                    (f_add (f_add (f_add k1_x (f_mul (Fin 2) k2_x)) (f_mul (Fin 2) k3_x)) k4_x)) 6),
            vx_f := f_add (vx_f e) (f_over (f_mul dt
                    (f_add (f_add (f_add k1_v (f_mul (Fin 2) k2_v)) (f_mul (Fin 2) k3_v)) k4_v)) 6),
            t_f := f_add (t_f e) dt\<rparr>)))))"

definition forces_f ::
  "SpringEngine_f \<Rightarrow> f64 \<Rightarrow> f64 \<Rightarrow> f64 \<Rightarrow> f64 \<Rightarrow> error + f64 \<times> f64" where
  "forces_f e px py pvx pvy =
     (let r = math_hypot_f px py in
      bind_err (if f_lt r tiny_f then Inr (Fin 0, Fin 1)
                else bind_err (f_div px r) (\<lambda>ux. bind_err (f_div py r) (\<lambda>uy. Inr (ux, uy))))
        (\<lambda>(ux, uy).
      let F_spring = f_mul (f_neg (k_f e)) (f_sub r (L0_f e));
          v_radial = f_add (f_mul pvx ux) (f_mul pvy uy);
          F_damp = f_mul (f_neg (c_f e)) v_radial;
          Fx = f_mul (f_add F_spring F_damp) ux;
          Fy = f_add (f_mul (f_add F_spring F_damp) uy) (f_mul (m_f e) (g_f e))
      in bind_err (f_div Fx (m_f e)) (\<lambda>ax. bind_err (f_div Fy (m_f e)) (\<lambda>ay. Inr (ax, ay)))))"

definition step_2d_f :: "SpringEngine_f \<Rightarrow> f64 \<Rightarrow> error + SpringEngine_f" where
  "step_2d_f e dt =
     bind_err (forces_f e (x_f e) (y_f e) (vx_f e) (vy_f e)) (\<lambda>(k1_ax, k1_ay).
     let k1_vx = vx_f e; k1_vy = vy_f e in
     bind_err (forces_f e (f_add (x_f e) (f_over (f_mul k1_vx dt) 2))
                          (f_add (y_f e) (f_over (f_mul k1_vy dt) 2))
                          (f_add (vx_f e) (f_over (f_mul k1_ax dt) 2))
                          (f_add (vy_f e) (f_over (f_mul k1_ay dt) 2))) (\<lambda>(k2_ax, k2_ay).
     let k2_vx = f_add (vx_f e) (f_over (f_mul k1_ax dt) 2);
         k2_vy = f_add (vy_f e) (f_over (f_mul k1_ay dt) 2) in
     bind_err (forces_f e (f_add (x_f e) (f_over (f_mul k2_vx dt) 2))
                          (f_add (y_f e) (f_over (f_mul k2_vy dt) 2))
                          (f_add (vx_f e) (f_over (f_mul k2_ax dt) 2))
                          (f_add (vy_f e) (f_over (f_mul k2_ay dt) 2))) (\<lambda>(k3_ax, k3_ay).
     let k3_vx = f_add (vx_f e) (f_over (f_mul k2_ax dt) 2);
         k3_vy = f_add (vy_f e) (f_over (f_mul k2_ay dt) 2) in
     bind_err (forces_f e (f_add (x_f e) (f_mul k3_vx dt))
                          (f_add (y_f e) (f_mul k3_vy dt))
                          (f_add (vx_f e) (f_mul k3_ax dt))
                          (f_add (vy_f e) (f_mul k3_ay dt))) (\<lambda>(k4_ax, k4_ay).
     let k4_vx = f_add (vx_f e) (f_mul k3_ax dt);
         k4_vy = f_add (vy_f e) (f_mul k3_ay dt) in
     Inr (e\<lparr>x_f := f_add (x_f e) (f_over (f_mul dt
                (f_add (f_add (f_add k1_vx (f_mul (Fin 2) k2_vx)) (f_mul (Fin 2) k3_vx)) k4_vx)) 6),
            y_f := f_add (y_f e) (f_over (f_mul dt
                (f_add (f_add (f_add k1_vy (f_mul (Fin 2) k2_vy)) (f_mul (Fin 2) k3_vy)) k4_vy)) 6),
            vx_f := f_add (vx_f e) (f_over (f_mul dt
                (f_add (f_add (f_add k1_ax (f_mul (Fin 2) k2_ax)) (f_mul (Fin 2) k3_ax)) k4_ax)) 6),
            vy_f := f_add (vy_f e) (f_over (f_mul dt
                (f_add (f_add (f_add k1_ay (f_mul (Fin 2) k2_ay)) (f_mul (Fin 2) k3_ay)) k4_ay)) 6),
            t_f := f_add (t_f e) dt\<rparr>)))))"

definition state_dict_f :: "SpringEngine_f \<Rightarrow> (string \<times> f64) list" where
  "state_dict_f e =
     [(''x'', x_f e), (''y'', y_f e), (''vx'', vx_f e), (''vy'', vy_f e), (''t'', t_f e)]"

definition step_f ::
  "SpringEngine_f \<Rightarrow> f64 \<Rightarrow> error + SpringEngine_f \<times> (string \<times> f64) list" where
  "step_f e dt =
     bind_err (if mode_f e = ''1D'' then step_1d_f e dt else step_2d_f e dt)
       (\<lambda>e'. Inr (e', state_dict_f e'))"

subsection \<open>Finite doubles and magnitudes\<close>

text \<open>
  \<open>is_double a\<close>: \<open>a\<close> is a finite value that a double can hold. \<open>mag n a\<close>: \<open>a\<close> is
  finite and at most \<open>2^n\<close> in magnitude.
\<close>

definition mag :: "int \<Rightarrow> f64 \<Rightarrow> bool" where
  "mag n a = (case a of Fin r \<Rightarrow> \<bar>r\<bar> \<le> pow2 n | _ \<Rightarrow> False)"

definition is_double :: "f64 \<Rightarrow> bool" where
  "is_double a = (case a of Fin r \<Rightarrow> nearest r = r \<and> \<bar>r\<bar> < pow2 1024 | _ \<Rightarrow> False)"

section \<open>Specification-side definitions and concrete engines\<close>

subsection \<open>The scheme of the specification\<close>

text \<open>
  The specification's Runge-Kutta step, written as the document words it: a state is a
  pair of a position and a velocity, \<open>f\<close> is the derivative function, and
  \<^verbatim>\<open>k1 = f(state)\<close>, \<^verbatim>\<open>k2 = f(state + k1 * dt/2)\<close>, \<^verbatim>\<open>k3 = f(state + k2 * dt/2)\<close>,
  \<^verbatim>\<open>k4 = f(state + k3 * dt)\<close>, \<^verbatim>\<open>state' = state + dt/6 * (k1 + 2*k2 + 2*k3 + k4)\<close>.
\<close>

type_synonym vec2 = "real \<times> real"

definition vadd :: "vec2 \<Rightarrow> vec2 \<Rightarrow> vec2" where
  "vadd a b = (fst a + fst b, snd a + snd b)"

definition vscale :: "real \<Rightarrow> vec2 \<Rightarrow> vec2" where
  "vscale s a = (s * fst a, s * snd a)"

definition rk4_spec :: "(vec2 \<Rightarrow> vec2) \<Rightarrow> vec2 \<Rightarrow> real \<Rightarrow> vec2" where
  "rk4_spec f s dt =
     (let k1 = f s;
          k2 = f (vadd s (vscale (dt / 2) k1));
          k3 = f (vadd s (vscale (dt / 2) k2));
          k4 = f (vadd s (vscale dt k3))
      in vadd s (vscale (dt / 6) (vadd k1 (vadd (vscale 2 k2) (vadd (vscale 2 k3) k4)))))"

text \<open>
  The one-dimensional derivative function of the specification: the position's derivative
  is the velocity carried in the state, the velocity's derivative is
  \<open>a(x, v) = (-k x - c v) / m\<close>.
\<close>

definition deriv_1d_spec :: "real \<Rightarrow> real \<Rightarrow> real \<Rightarrow> vec2 \<Rightarrow> vec2" where
  "deriv_1d_spec mass stiff damp s = (snd s, (- stiff * fst s - damp * snd s) / mass)"

text \<open>
  The initial conditions \<open>(x0, v0)\<close> of the analytical solution as the specification
  gives them: the state itself in one dimension, the radius and the radial velocity
  otherwise.
\<close>

definition initial_conditions_spec :: "SpringEngine \<Rightarrow> vec2" where
  "initial_conditions_spec e =
     (if mode e = ''1D'' then (x e, vx e)
      else (let r = math_hypot (x e) (y e)
            in (r, if r > tiny then (vx e * x e + vy e * y e) / r else 0)))"

subsection \<open>Engines used as concrete inputs\<close>

text \<open>
  \<open>demo_default\<close> carries the defaults of the dataclass, \<open>demo_overdamped\<close> the scenario
  \<open>m = 1, k = 4, c = 10\<close>; \<open>demo_near_critical\<close> has \<open>\<zeta> = 0.99999999995\<close>;
  \<open>demo_other_mode\<close> has a mode string that is neither \<^verbatim>\<open>"1D"\<close> nor \<^verbatim>\<open>"VECTOR"\<close>.
\<close>

definition demo_1d :: SpringEngine where
  "demo_1d = \<lparr>m = 1, k = 4, c = 0, g = 981 / 100, L0 = 1, mode = ''1D'',
              x = 1, y = 0, vx = 0, vy = 0, t = 0\<rparr>"

definition demo_vector :: SpringEngine where
  "demo_vector = \<lparr>m = 2, k = 10, c = 1 / 2, g = 981 / 100, L0 = 1, mode = ''VECTOR'',
                  x = 3, y = 4, vx = 1, vy = 2, t = 0\<rparr>"

definition demo_origin :: SpringEngine where
  "demo_origin = \<lparr>m = 2, k = 10, c = 1 / 2, g = 981 / 100, L0 = 1, mode = ''VECTOR'',
                  x = 0, y = 0, vx = 1, vy = 2, t = 0\<rparr>"

definition demo_other_mode :: SpringEngine where
  "demo_other_mode = \<lparr>m = 2, k = 10, c = 1 / 2, g = 981 / 100, L0 = 1, mode = ''2D'',
                  x = 0, y = 0, vx = 1, vy = 2, t = 0\<rparr>"

definition demo_near_critical :: SpringEngine where
  "demo_near_critical = \<lparr>m = 1, k = 1, c = 19999999999 / 10000000000, g = 981 / 100, L0 = 1,
      mode = ''1D'', x = 1 / 5, y = 0, vx = 0, vy = 0, t = 0\<rparr>"

definition demo_zero_stiffness :: SpringEngine where
  "demo_zero_stiffness = \<lparr>m = 1, k = 0, c = 1 / 2, g = 981 / 100, L0 = 1,
      mode = ''1D'', x = 1 / 5, y = 0, vx = 0, vy = 0, t = 0\<rparr>"

definition demo_overdamped :: SpringEngine where
  "demo_overdamped = \<lparr>m = 1, k = 4, c = 10, g = 981 / 100, L0 = 1,
      mode = ''1D'', x = 1 / 5, y = 0, vx = 0, vy = 0, t = 0\<rparr>"

definition demo_default :: SpringEngine where
  "demo_default = \<lparr>m = 1, k = 10, c = 1 / 2, g = 981 / 100, L0 = 1,
      mode = ''1D'', x = 1 / 5, y = 0, vx = 0, vy = 0, t = 0\<rparr>"

text \<open>
  Float engines: \<open>demo_fast_1d\<close> has the velocity \<open>2^1023\<close>, the others the velocity \<open>1\<close>.
\<close>

definition demo_fast_1d :: SpringEngine_f where
  "demo_fast_1d = \<lparr>m_f = Fin 1, k_f = Fin 1, c_f = Fin 0, g_f = Fin 0, L0_f = Fin 1,
      mode_f = ''1D'', x_f = Fin 0, y_f = Fin 0, vx_f = Fin (pow2 1023), vy_f = Fin 0,
      t_f = Fin 0\<rparr>"

definition demo_slow_1d :: SpringEngine_f where
  "demo_slow_1d = \<lparr>m_f = Fin 1, k_f = Fin 1, c_f = Fin 0, g_f = Fin 0, L0_f = Fin 1,
      mode_f = ''1D'', x_f = Fin 0, y_f = Fin 0, vx_f = Fin 1, vy_f = Fin 0, t_f = Fin 0\<rparr>"

definition demo_slow_2d :: SpringEngine_f where
  "demo_slow_2d = \<lparr>m_f = Fin 1, k_f = Fin 1, c_f = Fin 0, g_f = Fin 0, L0_f = Fin 1,
      mode_f = ''VECTOR'', x_f = Fin 0, y_f = Fin 0, vx_f = Fin 1, vy_f = Fin 0, t_f = Fin 0\<rparr>"

section \<open>Basic facts\<close>

lemma bind_err_Inr [simp]: "bind_err (Inr v) f = f v"
  by (simp add: bind_err_def)

lemma bind_err_Inl [simp]: "bind_err (Inl err) f = Inl err"
  by (simp add: bind_err_def)

lemma fdiv_nonzero: "b \<noteq> 0 \<Longrightarrow> fdiv a b = Inr (a / b)"
  by (simp add: fdiv_def)

lemma fdiv_zero: "fdiv a 0 = Inl ZeroDivisionError"
  by (simp add: fdiv_def)

lemma math_sqrt_nonneg: "0 \<le> a \<Longrightarrow> math_sqrt a = Inr (sqrt a)"
  by (simp add: math_sqrt_def)

lemma tiny_pos: "0 < tiny"
  by (simp add: tiny_def)

lemma force_nonzero: "m e \<noteq> 0 \<Longrightarrow> force e px pv = Inr ((- k e * px - c e * pv) / m e)"
  by (simp add: force_def fdiv_nonzero)

lemma force_zero: "m e = 0 \<Longrightarrow> force e px pv = Inl ZeroDivisionError"
  by (simp add: force_def fdiv_zero)

subsection \<open>The vector step returns whenever the mass is not zero\<close>

lemma unit_vector_total:
  "(if r < tiny then Inr (0, 1)
    else bind_err (fdiv px r) (\<lambda>ux. bind_err (fdiv py r) (\<lambda>uy. Inr (ux, uy))))
   = Inr (if r < tiny then (0, 1) else (px / r, py / r))"
  using tiny_pos by (simp add: fdiv_def)

lemma forces_total:
  assumes "m e \<noteq> 0"
  shows "\<exists>ax ay. forces e px py pvx pvy = Inr (ax, ay)"
  unfolding forces_def Let_def unit_vector_total
  by (simp add: fdiv_nonzero [OF assms] split: prod.split)

lemma forces_zero_mass:
  assumes "m e = 0"
  shows "forces e px py pvx pvy = Inl ZeroDivisionError"
  unfolding forces_def Let_def unit_vector_total
  by (simp add: assms fdiv_zero split: prod.split)

lemma step_2d_total:
  assumes nz: "m e \<noteq> 0"
  shows "\<exists>e'. step_2d e dt = Inr e' \<and> t e' = t e + dt \<and> m e' = m e \<and> mode e' = mode e"
proof -
  obtain a1 b1 where f1: "forces e (x e) (y e) (vx e) (vy e) = Inr (a1, b1)"
    using forces_total [OF nz] by blast
  obtain a2 b2 where f2: "forces e (x e + vx e * dt / 2) (y e + vy e * dt / 2)
      (vx e + a1 * dt / 2) (vy e + b1 * dt / 2) = Inr (a2, b2)"
    using forces_total [OF nz] by blast
  obtain a3 b3 where f3: "forces e (x e + (vx e + a1 * dt / 2) * dt / 2)
      (y e + (vy e + b1 * dt / 2) * dt / 2)
      (vx e + a2 * dt / 2) (vy e + b2 * dt / 2) = Inr (a3, b3)"
    using forces_total [OF nz] by blast
  obtain a4 b4 where f4: "forces e (x e + (vx e + a2 * dt / 2) * dt)
      (y e + (vy e + b2 * dt / 2) * dt)
      (vx e + a3 * dt) (vy e + b3 * dt) = Inr (a4, b4)"
    using forces_total [OF nz] by blast
  have "step_2d e dt =
     Inr (e\<lparr>x := x e + dt * (vx e + 2 * (vx e + a1 * dt / 2) + 2 * (vx e + a2 * dt / 2)
                 + (vx e + a3 * dt)) / 6,
            y := y e + dt * (vy e + 2 * (vy e + b1 * dt / 2) + 2 * (vy e + b2 * dt / 2)
                 + (vy e + b3 * dt)) / 6,
            vx := vx e + dt * (a1 + 2 * a2 + 2 * a3 + a4) / 6,
            vy := vy e + dt * (b1 + 2 * b2 + 2 * b3 + b4) / 6,
            t := t e + dt\<rparr>)"
    by (simp only: step_2d_def f1 f2 f3 f4 bind_err_Inr prod.case Let_def)
  then show ?thesis by simp
qed

lemma step_2d_zero_mass: "m e = 0 \<Longrightarrow> step_2d e dt = Inl ZeroDivisionError"
  by (simp add: step_2d_def forces_zero_mass)

lemma step_1d_total:
  assumes nz: "m e \<noteq> 0"
  shows "\<exists>e'. step_1d e dt = Inr e' \<and> t e' = t e + dt \<and> m e' = m e \<and> mode e' = mode e"
  by (simp add: step_1d_def force_nonzero [OF nz] Let_def)

lemma step_1d_zero_mass: "m e = 0 \<Longrightarrow> step_1d e dt = Inl ZeroDivisionError"
  by (simp add: step_1d_def force_zero)

lemma step_total:
  assumes nz: "m e \<noteq> 0"
  shows "\<exists>e'. step e dt = Inr (e', state_dict e') \<and> t e' = t e + dt \<and> m e' = m e
    \<and> mode e' = mode e"
proof (cases "mode e = ''1D''")
  case True
  with step_1d_total [OF nz, of dt] show ?thesis by (auto simp: step_def)
next
  case False
  with step_2d_total [OF nz, of dt] show ?thesis by (auto simp: step_def)
qed

lemma step_zero_mass: "m e = 0 \<Longrightarrow> step e dt = Inl ZeroDivisionError"
  by (simp add: step_def step_1d_zero_mass step_2d_zero_mass)

lemma run_steps_time:
  "m e \<noteq> 0 \<Longrightarrow> \<exists>e'. run_steps n dt e = Inr e' \<and> t e' = t e + real n * dt \<and> m e' = m e"
proof (induction n arbitrary: e)
  case 0
  then show ?case by simp
next
  case (Suc n)
  from step_total [OF Suc.prems, of dt] obtain e1 where
    s: "step e dt = Inr (e1, state_dict e1)" and t1: "t e1 = t e + dt" and m1: "m e1 = m e"
    by blast
  from Suc.prems m1 have "m e1 \<noteq> 0" by simp
  from Suc.IH [OF this] obtain e2 where
    r: "run_steps n dt e1 = Inr e2" and t2: "t e2 = t e1 + real n * dt" and m2: "m e2 = m e1"
    by blast
  show ?case by (simp add: s r t1 t2 m1 m2 algebra_simps)
qed

subsection \<open>Two values of \<^verbatim>\<open>math.hypot\<close>\<close>

lemma math_hypot_3_4: "math_hypot 3 4 = 5"
proof -
  have "sqrt (3 * 3 + 4 * 4) = sqrt (5\<^sup>2)" by simp
  then show ?thesis unfolding math_hypot_def by (simp del: real_sqrt_abs add: real_sqrt_abs)
qed

lemma math_hypot_0_0: "math_hypot 0 0 = 0"
  by (simp add: math_hypot_def)

subsection \<open>The mode string matters only to the dispatch\<close>

lemma forces_mode_irrelevant: "forces (e\<lparr>mode := s\<rparr>) px py pvx pvy = forces e px py pvx pvy"
  by (simp add: forces_def)

lemma step_2d_mode_irrelevant:
  "step_2d (e\<lparr>mode := s\<rparr>) dt = map_sum id (\<lambda>e'. e'\<lparr>mode := s\<rparr>) (step_2d e dt)"
  by (simp add: step_2d_def forces_mode_irrelevant bind_err_def Let_def
      split: sum.split prod.split)

subsection \<open>The analytical solution in closed form\<close>

lemma initial_conditions_code:
  "(if mode e = ''1D'' then Inr (x e, vx e)
    else (let r_current = math_hypot (x e) (y e) in
          if r_current > tiny
          then bind_err (fdiv (vx e * x e + vy e * y e) r_current) (\<lambda>v0. Inr (r_current, v0))
          else Inr (r_current, 0)))
   = Inr (initial_conditions_spec e)"
  using tiny_pos by (simp add: initial_conditions_spec_def Let_def fdiv_def)

lemma underdamped_omega_d_pos:
  assumes "0 < w" and "0 \<le> z" and "z < 1"
  shows "0 < w * sqrt (1 - z ^ 2)"
proof -
  from assms have "z ^ 2 < 1" by (simp add: power_less_one_iff abs_square_less_1)
  then have "0 < sqrt (1 - z ^ 2)" by simp
  with assms(1) show ?thesis by simp
qed

lemma overdamped_sqrt_pos:
  assumes "1 < (z::real)"
  shows "0 < sqrt (z ^ 2 - 1)" and "sqrt (z ^ 2 - 1) < z"
proof -
  from assms have one: "1 < z ^ 2" by (simp add: power2_eq_square less_1_mult)
  then show "0 < sqrt (z ^ 2 - 1)" by simp
  have "sqrt (z ^ 2 - 1) < sqrt (z ^ 2)" by (simp del: real_sqrt_abs)
  with assms show "sqrt (z ^ 2 - 1) < z" by simp
qed

lemma get_analytical_solution_value:
  assumes "0 < m e" and "0 < k e" and "0 \<le> c e"
  shows "get_analytical_solution e =
     (let omega_n = sqrt (k e / m e);
          zeta = c e / (2 * sqrt (k e * m e));
          x0 = fst (initial_conditions_spec e);
          v0 = snd (initial_conditions_spec e)
      in if zeta < 1 then
           (let omega_d = omega_n * sqrt (1 - zeta ^ 2)
            in Inr [(''case'', PStr ''underdamped''), (''omega_n'', PFloat omega_n),
                    (''omega_d'', PFloat omega_d), (''zeta'', PFloat zeta),
                    (''A'', PFloat x0), (''B'', PFloat ((v0 + zeta * omega_n * x0) / omega_d))])
         else if \<bar>zeta - 1\<bar> < tiny then
           Inr [(''case'', PStr ''critical''), (''omega_n'', PFloat omega_n),
                (''zeta'', PFloat zeta), (''A'', PFloat x0), (''B'', PFloat (v0 + omega_n * x0))]
         else
           (let r1 = - omega_n * (zeta - sqrt (zeta ^ 2 - 1));
                r2 = - omega_n * (zeta + sqrt (zeta ^ 2 - 1));
                det = r2 - r1
            in Inr [(''case'', PStr ''overdamped''), (''omega_n'', PFloat omega_n),
                    (''zeta'', PFloat zeta), (''r1'', PFloat r1), (''r2'', PFloat r2),
                    (''A'', PFloat ((r2 * x0 - v0) / det)), (''B'', PFloat ((v0 - r1 * x0) / det))]))"
proof -
  define omega_n where "omega_n = sqrt (k e / m e)"
  define zeta where "zeta = c e / (2 * sqrt (k e * m e))"
  from assms have wpos: "0 < omega_n" by (simp add: omega_n_def)
  from assms have spos: "0 < sqrt (k e * m e)" by simp
  with assms have znn: "0 \<le> zeta" by (simp add: zeta_def)
  have q: "fdiv (k e) (m e) = Inr (k e / m e)" using assms by (simp add: fdiv_nonzero)
  have w: "math_sqrt (k e / m e) = Inr omega_n"
    using assms by (simp add: math_sqrt_nonneg omega_n_def)
  have s: "math_sqrt (k e * m e) = Inr (sqrt (k e * m e))"
    using assms by (simp add: math_sqrt_nonneg)
  have z: "fdiv (c e) (2 * sqrt (k e * m e)) = Inr zeta"
    using assms by (simp add: fdiv_def zeta_def)
  have head: "get_analytical_solution e =
    (case initial_conditions_spec e of (x0, v0) \<Rightarrow>
     if zeta < 1 then
       bind_err (math_sqrt (1 - zeta ^ 2)) (\<lambda>sq.
       let omega_d = omega_n * sq; A = x0 in
       bind_err (fdiv (v0 + zeta * omega_n * x0) omega_d) (\<lambda>B.
       Inr [(''case'', PStr ''underdamped''), (''omega_n'', PFloat omega_n),
            (''omega_d'', PFloat omega_d), (''zeta'', PFloat zeta),
            (''A'', PFloat A), (''B'', PFloat B)]))
     else if \<bar>zeta - 1\<bar> < tiny then
       (let A = x0; B = v0 + omega_n * x0 in
        Inr [(''case'', PStr ''critical''), (''omega_n'', PFloat omega_n),
             (''zeta'', PFloat zeta), (''A'', PFloat A), (''B'', PFloat B)])
     else
       bind_err (math_sqrt (zeta ^ 2 - 1)) (\<lambda>sqrt_term.
       let r1 = - omega_n * (zeta - sqrt_term);
           r2 = - omega_n * (zeta + sqrt_term);
           det = r2 - r1
       in bind_err (fdiv (r2 * x0 - v0) det) (\<lambda>A.
          bind_err (fdiv (v0 - r1 * x0) det) (\<lambda>B.
          Inr [(''case'', PStr ''overdamped''), (''omega_n'', PFloat omega_n),
               (''zeta'', PFloat zeta), (''r1'', PFloat r1), (''r2'', PFloat r2),
               (''A'', PFloat A), (''B'', PFloat B)]))))"
    unfolding get_analytical_solution_def q bind_err_Inr w s z initial_conditions_code
    by (rule refl)
  obtain x0 v0 where ic: "initial_conditions_spec e = (x0, v0)" by (cases "initial_conditions_spec e")
  consider (under) "zeta < 1" | (crit) "\<not> zeta < 1" "\<bar>zeta - 1\<bar> < tiny"
    | (over) "\<not> zeta < 1" "\<not> \<bar>zeta - 1\<bar> < tiny" by blast
  then have "get_analytical_solution e =
     (if zeta < 1 then
           (let omega_d = omega_n * sqrt (1 - zeta ^ 2)
            in Inr [(''case'', PStr ''underdamped''), (''omega_n'', PFloat omega_n),
                    (''omega_d'', PFloat omega_d), (''zeta'', PFloat zeta),
                    (''A'', PFloat x0), (''B'', PFloat ((v0 + zeta * omega_n * x0) / omega_d))])
         else if \<bar>zeta - 1\<bar> < tiny then
           Inr [(''case'', PStr ''critical''), (''omega_n'', PFloat omega_n),
                (''zeta'', PFloat zeta), (''A'', PFloat x0), (''B'', PFloat (v0 + omega_n * x0))]
         else
           (let r1 = - omega_n * (zeta - sqrt (zeta ^ 2 - 1));
                r2 = - omega_n * (zeta + sqrt (zeta ^ 2 - 1));
                det = r2 - r1
            in Inr [(''case'', PStr ''overdamped''), (''omega_n'', PFloat omega_n),
                    (''zeta'', PFloat zeta), (''r1'', PFloat r1), (''r2'', PFloat r2),
                    (''A'', PFloat ((r2 * x0 - v0) / det)), (''B'', PFloat ((v0 - r1 * x0) / det))]))"
  proof cases
    case under
    from underdamped_omega_d_pos [OF wpos znn under]
    have od: "omega_n * sqrt (1 - zeta ^ 2) \<noteq> 0" by linarith
    from znn under have "zeta ^ 2 \<le> 1" by (simp add: power_le_one)
    then have sq: "math_sqrt (1 - zeta ^ 2) = Inr (sqrt (1 - zeta ^ 2))"
      by (simp add: math_sqrt_nonneg)
    show ?thesis
      unfolding head ic using under by (simp add: sq Let_def fdiv_nonzero [OF od])
  next
    case crit
    then show ?thesis unfolding head ic by (simp add: Let_def)
  next
    case over
    then have z1: "1 < zeta" using tiny_pos by (cases "zeta = 1") auto
    from overdamped_sqrt_pos(1) [OF z1] wpos
    have "0 < omega_n * sqrt (zeta ^ 2 - 1)" by (rule mult_pos_pos [rotated])
    moreover have "- omega_n * (zeta + sqrt (zeta ^ 2 - 1)) - - omega_n * (zeta - sqrt (zeta ^ 2 - 1))
        = - (2 * (omega_n * sqrt (zeta ^ 2 - 1)))"
      by (simp only: algebra_simps)
    ultimately
    have det: "- omega_n * (zeta + sqrt (zeta ^ 2 - 1)) - - omega_n * (zeta - sqrt (zeta ^ 2 - 1)) \<noteq> 0"
      by linarith
    from z1 have "1 \<le> zeta ^ 2" by (simp add: power2_eq_square mult_ge1_I )
    then have sq: "math_sqrt (zeta ^ 2 - 1) = Inr (sqrt (zeta ^ 2 - 1))"
      by (simp add: math_sqrt_nonneg)
    show ?thesis
      unfolding head ic using over by (simp only: sq Let_def fdiv_nonzero [OF det] bind_err_Inr if_False prod.case)
  qed
  then show ?thesis
    by (simp only: Let_def omega_n_def zeta_def ic fst_conv snd_conv)
qed

section \<open>Facts about binary64 rounding\<close>

lemma pow2_pos [simp]: "0 < pow2 i"
  by (simp add: pow2_def)

lemma pow2_nonneg [simp]: "0 \<le> pow2 i"
  by (simp add: pow2_def)

lemma pow2_neq0 [simp]: "pow2 i \<noteq> 0"
  by (simp add: pow2_def)

lemma pow2_not_le0 [simp]: "\<not> pow2 i \<le> 0"
  using pow2_pos [of i] by linarith

lemma pow2_add: "pow2 (i + j) = pow2 i * pow2 j"
  by (simp add: pow2_def powr_add)

lemma pow2_diff: "pow2 (i - j) = pow2 i / pow2 j"
  by (simp add: pow2_def powr_diff)

lemma pow2_0 [simp]: "pow2 0 = 1"
  by (simp add: pow2_def)

lemma pow2_nat: "pow2 (int n) = 2 ^ n"
  by (simp add: pow2_def powr_realpow)

lemma pow2_neg_nat: "pow2 (- int n) = 1 / 2 ^ n"
  by (simp add: pow2_def powr_minus powr_realpow inverse_eq_divide)

lemma pow2_mono: "i \<le> j \<Longrightarrow> pow2 i \<le> pow2 j"
  by (simp add: pow2_def)

lemma pow2_strict_mono: "i < j \<Longrightarrow> pow2 i < pow2 j"
  by (simp add: pow2_def)

lemma pow2_le_iff [simp]: "pow2 i \<le> pow2 j \<longleftrightarrow> i \<le> j"
  by (simp add: pow2_def)

lemma pow2_less_iff [simp]: "pow2 i < pow2 j \<longleftrightarrow> i < j"
  by (simp add: pow2_def)

lemma pow2_is_int: "0 \<le> i \<Longrightarrow> pow2 i = of_int (2 ^ nat i)"
  using pow2_nat [of "nat i"] by simp

text \<open>rne\<close>

lemma rne_of_int [simp]: "rne (of_int i) = i"
  by (simp add: rne_def)

lemma rne_error: "\<bar>of_int (rne v) - v\<bar> \<le> 1 / 2"
proof -
  have "of_int \<lfloor>v\<rfloor> \<le> v" "v < of_int \<lfloor>v\<rfloor> + 1" by linarith+
  then show ?thesis by (auto simp: rne_def Let_def)
qed

lemma rne_mono: assumes "v \<le> w" shows "rne v \<le> rne w"
proof -
  have fv: "of_int \<lfloor>v\<rfloor> \<le> v" "v < of_int \<lfloor>v\<rfloor> + 1" by linarith+
  have fw: "of_int \<lfloor>w\<rfloor> \<le> w" "w < of_int \<lfloor>w\<rfloor> + 1" by linarith+
  have fl: "\<lfloor>v\<rfloor> \<le> \<lfloor>w\<rfloor>" using assms by (rule floor_mono)
  show ?thesis
  proof (cases "\<lfloor>v\<rfloor> = \<lfloor>w\<rfloor>")
    case True
    with assms show ?thesis by (auto simp: rne_def Let_def)
  next
    case False
    with fl have "\<lfloor>v\<rfloor> + 1 \<le> \<lfloor>w\<rfloor>" by simp
    moreover have "rne v \<le> \<lfloor>v\<rfloor> + 1" by (auto simp: rne_def Let_def)
    moreover have "\<lfloor>w\<rfloor> \<le> rne w" by (auto simp: rne_def Let_def)
    ultimately show ?thesis by linarith
  qed
qed

lemma rne_le_int: "v \<le> of_int i \<Longrightarrow> rne v \<le> i"
  using rne_mono [of v "of_int i"] by simp

lemma rne_ge_int: "of_int i \<le> v \<Longrightarrow> i \<le> rne v"
  using rne_mono [of "of_int i" v] by simp

text \<open>expo\<close>

lemma pow2_le_abs_nonzero: "pow2 n \<le> \<bar>v\<bar> \<Longrightarrow> v \<noteq> 0"
proof
  assume a: "pow2 n \<le> \<bar>v\<bar>" and "v = 0"
  then have "pow2 n \<le> 0" by simp
  moreover have "0 < pow2 n" by simp
  ultimately show False by linarith
qed

lemma floor_log2_bounds:
  assumes "v \<noteq> 0"
  shows "pow2 \<lfloor>log 2 \<bar>v\<bar>\<rfloor> \<le> \<bar>v\<bar>" and "\<bar>v\<bar> < pow2 (\<lfloor>log 2 \<bar>v\<bar>\<rfloor> + 1)"
proof -
  from assms have p: "0 < \<bar>v\<bar>" by simp
  have "of_int \<lfloor>log 2 \<bar>v\<bar>\<rfloor> \<le> log 2 \<bar>v\<bar>" by simp
  then have "2 powr of_int \<lfloor>log 2 \<bar>v\<bar>\<rfloor> \<le> 2 powr log 2 \<bar>v\<bar>" by simp
  with p show "pow2 \<lfloor>log 2 \<bar>v\<bar>\<rfloor> \<le> \<bar>v\<bar>" by (simp add: pow2_def)
  have "log 2 \<bar>v\<bar> < of_int (\<lfloor>log 2 \<bar>v\<bar>\<rfloor> + 1)" by linarith
  then have "2 powr log 2 \<bar>v\<bar> < 2 powr of_int (\<lfloor>log 2 \<bar>v\<bar>\<rfloor> + 1)" by (simp del: of_int_add)
  with p show "\<bar>v\<bar> < pow2 (\<lfloor>log 2 \<bar>v\<bar>\<rfloor> + 1)" by (simp add: pow2_def)
qed

lemma floor_log2_unique:
  assumes "pow2 n \<le> \<bar>v\<bar>" and "\<bar>v\<bar> < pow2 (n + 1)"
  shows "\<lfloor>log 2 \<bar>v\<bar>\<rfloor> = n"
proof -
  from assms(1) have p: "0 < \<bar>v\<bar>" using pow2_pos [of n] by linarith
  then have v: "v \<noteq> 0" by auto
  note b = floor_log2_bounds [OF v]
  from b(1) assms(2) have "pow2 \<lfloor>log 2 \<bar>v\<bar>\<rfloor> < pow2 (n + 1)" by linarith
  then have "\<lfloor>log 2 \<bar>v\<bar>\<rfloor> < n + 1" by simp
  moreover from b(2) assms(1) have "pow2 n < pow2 (\<lfloor>log 2 \<bar>v\<bar>\<rfloor> + 1)" by linarith
  then have "n < \<lfloor>log 2 \<bar>v\<bar>\<rfloor> + 1" by simp
  ultimately show ?thesis by linarith
qed

lemma expo_upper: "v \<noteq> 0 \<Longrightarrow> \<bar>v\<bar> < pow2 (expo v + 1)"
proof -
  assume v: "v \<noteq> 0"
  have "pow2 (\<lfloor>log 2 \<bar>v\<bar>\<rfloor> + 1) \<le> pow2 (expo v + 1)" by (simp add: expo_def)
  with floor_log2_bounds(2) [OF v] show ?thesis by linarith
qed

lemma expo_le: "\<bar>v\<bar> \<le> pow2 n \<Longrightarrow> - 1022 \<le> n \<Longrightarrow> v \<noteq> 0 \<Longrightarrow> expo v \<le> n"
proof -
  assume a: "\<bar>v\<bar> \<le> pow2 n" and n: "- 1022 \<le> n" and v: "v \<noteq> 0"
  from floor_log2_bounds(1) [OF v] a have "pow2 \<lfloor>log 2 \<bar>v\<bar>\<rfloor> \<le> pow2 n" by linarith
  then have "\<lfloor>log 2 \<bar>v\<bar>\<rfloor> \<le> n" by simp
  with n show ?thesis by (simp add: expo_def)
qed

lemma expo_normal: "pow2 (- 1022) \<le> \<bar>v\<bar> \<Longrightarrow> expo v = \<lfloor>log 2 \<bar>v\<bar>\<rfloor>"
proof -
  assume a: "pow2 (- 1022) \<le> \<bar>v\<bar>"
  then have v: "v \<noteq> 0" by (rule pow2_le_abs_nonzero)
  from floor_log2_bounds(2) [OF v] a have "pow2 (- 1022) < pow2 (\<lfloor>log 2 \<bar>v\<bar>\<rfloor> + 1)" by linarith
  then have "- 1022 < \<lfloor>log 2 \<bar>v\<bar>\<rfloor> + 1" by simp
  then show ?thesis by (simp add: expo_def)
qed

lemma expo_lower: "pow2 (- 1022) \<le> \<bar>v\<bar> \<Longrightarrow> pow2 (expo v) \<le> \<bar>v\<bar>"
proof -
  assume a: "pow2 (- 1022) \<le> \<bar>v\<bar>"
  then have v: "v \<noteq> 0" by (rule pow2_le_abs_nonzero)
  from floor_log2_bounds(1) [OF v] expo_normal [OF a] show ?thesis by simp
qed

lemma expo_ge: "pow2 n \<le> \<bar>v\<bar> \<Longrightarrow> - 1022 \<le> n \<Longrightarrow> n \<le> expo v"
proof -
  assume a: "pow2 n \<le> \<bar>v\<bar>" and n: "- 1022 \<le> n"
  from n have "pow2 (- 1022) \<le> pow2 n" by simp
  with a have nm: "pow2 (- 1022) \<le> \<bar>v\<bar>" by linarith
  then have v: "v \<noteq> 0" by (rule pow2_le_abs_nonzero)
  from expo_upper [OF v] a have "pow2 n < pow2 (expo v + 1)" by linarith
  then show ?thesis by simp
qed

lemma expo_minus [simp]: "expo (- v) = expo v"
  by (simp add: expo_def)

lemma ulp_pos [simp]: "0 < ulp v"
  by (simp add: ulp_def)

lemma ulp_minus [simp]: "ulp (- v) = ulp v"
  by (simp add: ulp_def)

lemma ulp_nonneg [simp]: "0 \<le> ulp v"
  by (simp add: ulp_def)

lemma ulp_neq0 [simp]: "ulp v \<noteq> 0"
  by (simp add: ulp_def)

lemma abs_ulp [simp]: "\<bar>ulp v\<bar> = ulp v"
  by (simp add: ulp_def)

text \<open>nearest\<close>

lemma nearest_0 [simp]: "nearest 0 = 0"
  by (simp add: nearest_def)

lemma nearest_upper:
  assumes a: "\<bar>v\<bar> \<le> pow2 n" and n: "- 1022 \<le> n"
  shows "\<bar>nearest v\<bar> \<le> pow2 n"
proof (cases "v = 0")
  case True
  then show ?thesis by simp
next
  case False
  from expo_le [OF a n False] have e: "expo v \<le> n" .
  define j where "j = n - expo v + 52"
  from e have j: "0 \<le> j" by (simp add: j_def)
  have pn: "pow2 n = of_int (2 ^ nat j) * ulp v"
    unfolding ulp_def pow2_is_int [OF j, symmetric] pow2_add [symmetric] by (simp add: j_def)
  have "\<bar>v / ulp v\<bar> \<le> of_int (2 ^ nat j)"
    using a by (simp add: pn pos_divide_le_eq)
  then have "- of_int (2 ^ nat j) \<le> v / ulp v" "v / ulp v \<le> of_int (2 ^ nat j)" by linarith+
  then have "- (2 ^ nat j) \<le> rne (v / ulp v)" "rne (v / ulp v) \<le> 2 ^ nat j"
    using rne_ge_int [of "- (2 ^ nat j)" "v / ulp v"] rne_le_int [of "v / ulp v" "2 ^ nat j"]
    by simp_all
  then have "\<bar>rne (v / ulp v)\<bar> \<le> 2 ^ nat j" by linarith
  then have "\<bar>of_int (rne (v / ulp v))\<bar> \<le> (of_int (2 ^ nat j) :: real)"
    by (metis of_int_abs of_int_le_iff)
  then have "\<bar>of_int (rne (v / ulp v))\<bar> * ulp v \<le> of_int (2 ^ nat j) * ulp v"
    by (rule mult_right_mono) simp
  with False show ?thesis by (simp add: nearest_def pn abs_mult)
qed

lemma nearest_lower:
  assumes a: "pow2 n \<le> \<bar>v\<bar>" and n: "- 1022 \<le> n"
  shows "pow2 n \<le> \<bar>nearest v\<bar>"
proof -
  from a have v: "v \<noteq> 0" by (rule pow2_le_abs_nonzero)
  from expo_ge [OF a n] have e: "n \<le> expo v" .
  from n have "pow2 (- 1022) \<le> pow2 n" by simp
  with a have nm: "pow2 (- 1022) \<le> \<bar>v\<bar>" by linarith
  from expo_lower [OF nm] have lo: "pow2 (expo v) \<le> \<bar>v\<bar>" .
  have pe: "pow2 (expo v) = of_int (2 ^ 52) * ulp v"
    unfolding ulp_def using pow2_is_int [of 52] pow2_add [of 52 "expo v - 52"] by simp
  have big: "of_int (2 ^ 52) \<le> \<bar>v / ulp v\<bar>"
    using lo by (simp add: pe pos_le_divide_eq)
  have "2 ^ 52 \<le> \<bar>rne (v / ulp v)\<bar>"
  proof (cases "0 \<le> v / ulp v")
    case True
    with big have "of_int (2 ^ 52) \<le> v / ulp v" by linarith
    from rne_ge_int [OF this] show ?thesis by linarith
  next
    case False
    with big have "v / ulp v \<le> of_int (- (2 ^ 52))" by simp
    from rne_le_int [OF this] show ?thesis by linarith
  qed
  then have "(of_int (2 ^ 52) :: real) \<le> \<bar>of_int (rne (v / ulp v))\<bar>"
    by (metis of_int_abs of_int_le_iff)
  then have "of_int (2 ^ 52) * ulp v \<le> \<bar>of_int (rne (v / ulp v))\<bar> * ulp v"
    by (rule mult_right_mono) simp
  then have "pow2 (expo v) \<le> \<bar>nearest v\<bar>"
    using v by (simp add: nearest_def pe abs_mult)
  moreover from e have "pow2 n \<le> pow2 (expo v)" by simp
  ultimately show ?thesis by linarith
qed

lemma nearest_nonneg: "0 \<le> v \<Longrightarrow> 0 \<le> nearest v"
proof -
  assume "0 \<le> v"
  then have "of_int 0 \<le> v / ulp v" by simp
  from rne_ge_int [OF this] show ?thesis by (simp add: nearest_def)
qed

lemma nearest_nonpos: "v \<le> 0 \<Longrightarrow> nearest v \<le> 0"
proof -
  assume "v \<le> 0"
  then have "v / ulp v \<le> of_int 0" by (simp add: divide_nonpos_pos)
  from rne_le_int [OF this] show ?thesis
    by (simp add: nearest_def mult_nonpos_nonneg)
qed

lemma nearest_error: "\<bar>nearest v - v\<bar> \<le> ulp v / 2"
proof (cases "v = 0")
  case True
  then show ?thesis by simp
next
  case False
  have "\<bar>of_int (rne (v / ulp v)) - v / ulp v\<bar> * ulp v \<le> 1 / 2 * ulp v"
    by (rule mult_right_mono [OF rne_error]) simp
  moreover have "\<bar>of_int (rne (v / ulp v)) - v / ulp v\<bar> * ulp v
      = \<bar>of_int (rne (v / ulp v)) * ulp v - v\<bar>"
  proof -
    have "\<bar>of_int (rne (v / ulp v)) - v / ulp v\<bar> * ulp v
        = \<bar>(of_int (rne (v / ulp v)) - v / ulp v) * ulp v\<bar>"
      by (simp add: abs_mult)
    also have "(of_int (rne (v / ulp v)) - v / ulp v) * ulp v
        = of_int (rne (v / ulp v)) * ulp v - v"
      by (simp add: left_diff_distrib)
    finally show ?thesis .
  qed
  ultimately show ?thesis using False by (simp add: nearest_def)
qed

lemma nearest_error_abs:
  assumes a: "\<bar>v\<bar> \<le> pow2 n" and n: "- 1022 \<le> n"
  shows "\<bar>nearest v - v\<bar> \<le> pow2 (n - 53)"
proof (cases "v = 0")
  case True
  then show ?thesis by simp
next
  case False
  from expo_le [OF a n False] have "expo v - 53 \<le> n - 53" by simp
  then have "pow2 (expo v - 53) \<le> pow2 (n - 53)" by simp
  moreover have "ulp v / 2 = pow2 (expo v - 53)"
    using pow2_diff [of "expo v - 52" 1] by (simp add: ulp_def pow2_def)
  ultimately show ?thesis using nearest_error [of v] by linarith
qed

lemma nearest_error_rel:
  assumes nm: "pow2 (- 1022) \<le> \<bar>v\<bar>"
  shows "\<bar>nearest v - v\<bar> \<le> pow2 (- 53) * \<bar>v\<bar>"
proof -
  have "ulp v / 2 = pow2 (- 53) * pow2 (expo v)"
    using pow2_add [of "- 53" "expo v"] pow2_diff [of "expo v - 52" 1]
    by (simp add: ulp_def pow2_def)
  moreover have "pow2 (- 53) * pow2 (expo v) \<le> pow2 (- 53) * \<bar>v\<bar>"
    by (rule mult_left_mono [OF expo_lower [OF nm]]) simp
  ultimately show ?thesis using nearest_error [of v] by linarith
qed

lemma nearest_dyadic:
  assumes N: "\<bar>N\<bar> < 2 ^ 53" and j: "- 1074 \<le> j"
  shows "nearest (of_int N * pow2 j) = of_int N * pow2 j"
proof (cases "N = 0")
  case True
  then show ?thesis by simp
next
  case False
  define v where "v = of_int N * pow2 j"
  from False have v: "v \<noteq> 0" by (simp add: v_def)
  have av: "\<bar>v\<bar> = of_int \<bar>N\<bar> * pow2 j" by (simp add: v_def abs_mult)
  from N have "(of_int \<bar>N\<bar> :: real) < of_int (2 ^ 53)" by (simp only: of_int_less_iff)
  then have "of_int \<bar>N\<bar> * pow2 j < of_int (2 ^ 53) * pow2 j"
    by (rule mult_strict_right_mono) simp
  also have "of_int (2 ^ 53) * pow2 j = pow2 (53 + j)"
    using pow2_is_int [of 53] pow2_add [of 53 j] by simp
  finally have up: "\<bar>v\<bar> < pow2 (53 + j)" by (simp add: av)
  from floor_log2_bounds(1) [OF v] up have "pow2 \<lfloor>log 2 \<bar>v\<bar>\<rfloor> < pow2 (53 + j)" by linarith
  then have "\<lfloor>log 2 \<bar>v\<bar>\<rfloor> < 53 + j" by simp
  with j have e: "expo v - 52 \<le> j" by (simp add: expo_def)
  define i where "i = j - (expo v - 52)"
  from e have i: "0 \<le> i" by (simp add: i_def)
  have pj: "pow2 j = pow2 i * ulp v"
    unfolding ulp_def pow2_add [symmetric] by (simp add: i_def)
  have veq: "v = of_int N * (pow2 i * ulp v)"
    by (subst pj [symmetric]) (simp add: v_def)
  have "v / ulp v = (of_int N * (pow2 i * ulp v)) / ulp v"
    by (rule arg_cong [where f = "\<lambda>t. t / ulp v", OF veq])
  also have "\<dots> = of_int N * pow2 i" by simp
  finally have "v / ulp v = of_int N * pow2 i" .
  also have "\<dots> = of_int (N * 2 ^ nat i)" by (simp add: pow2_is_int [OF i])
  finally have "rne (v / ulp v) = N * 2 ^ nat i" by (simp only: rne_of_int)
  then have "nearest v = of_int (N * 2 ^ nat i) * ulp v" using v by (simp add: nearest_def)
  also have "\<dots> = of_int N * (pow2 i * ulp v)" by (simp add: pow2_is_int [OF i])
  also have "pow2 i * ulp v = pow2 j"
    unfolding ulp_def pow2_add [symmetric] by (simp add: i_def)
  finally show ?thesis by (simp add: v_def)
qed

lemma nearest_pow2: "- 1074 \<le> j \<Longrightarrow> nearest (pow2 j) = pow2 j"
  using nearest_dyadic [of 1 j] by simp

text \<open>The largest double below 1.\<close>

lemma nearest_below_one:
  assumes "v < 1 - pow2 (- 54)"
  shows "nearest v \<le> 1 - pow2 (- 53)"
proof (cases "v < 1 / 2")
  case True
  have h: "(1::real) / 2 = pow2 (- 1)" using pow2_neg_nat [of 1] by simp
  have le: "pow2 (- 1) \<le> 1 - pow2 (- 53)"
  proof -
    have "pow2 (- 53) \<le> pow2 (- 1)" by simp
    with h show ?thesis by linarith
  qed
  show ?thesis
  proof (cases "0 \<le> v")
    case True
    with \<open>v < 1 / 2\<close> have "\<bar>v\<bar> \<le> pow2 (- 1)" by (simp add: h)
    from nearest_upper [OF this] le show ?thesis by simp
  next
    case False
    then have "nearest v \<le> 0" by (intro nearest_nonpos) simp
    moreover have "0 \<le> 1 - pow2 (- 53)" using le pow2_nonneg [of "- 1"] by linarith
    ultimately show ?thesis by linarith
  qed
next
  case False
  have h: "(1::real) / 2 = pow2 (- 1)" using pow2_neg_nat [of 1] by simp
  have p54: "pow2 (- 54) > 0" by simp
  from False have vh: "1 / 2 \<le> v" by simp
  then have lo: "pow2 (- 1) \<le> \<bar>v\<bar>" unfolding h by linarith
  from vh assms p54 have "\<bar>v\<bar> < 1" by linarith
  then have hi: "\<bar>v\<bar> < pow2 (- 1 + 1)" by simp
  from floor_log2_unique [OF lo hi] have "expo v = - 1" by (simp add: expo_def)
  then have u: "ulp v = pow2 (- 53)" by (simp add: ulp_def)
  from False have v: "v \<noteq> 0" by auto
  have "pow2 (- 54) = pow2 (- 53) / 2"
    using pow2_diff [of "- 53" 1] by (simp add: pow2_def)
  with assms have "v < 1 - pow2 (- 53) / 2" by simp
  then have "v / pow2 (- 53) < (1 - pow2 (- 53) / 2) / pow2 (- 53)"
    by (simp add: divide_strict_right_mono)
  also have "(1 - pow2 (- 53) / 2) / pow2 (- 53) = 1 / pow2 (- 53) - 1 / 2"
    by (simp add: diff_divide_distrib)
  also have "1 / pow2 (- 53) = pow2 53"
    using pow2_diff [of 0 "- 53"] by simp
  finally have y: "v / pow2 (- 53) < pow2 53 - 1 / 2" .
  have p53: "pow2 53 = of_int (2 ^ 53)" using pow2_is_int [of 53] by simp
  have "rne (v / pow2 (- 53)) \<le> 2 ^ 53 - 1"
  proof -
    have er: "\<bar>of_int (rne (v / pow2 (- 53))) - v / pow2 (- 53)\<bar> \<le> 1 / 2" by (rule rne_error)
    with y have "(of_int (rne (v / pow2 (- 53))) :: real) < of_int (2 ^ 53)"
      unfolding p53 by linarith
    then have "rne (v / pow2 (- 53)) < 2 ^ 53" by (simp only: of_int_less_iff)
    then show ?thesis by simp
  qed
  then have "(of_int (rne (v / pow2 (- 53))) :: real) \<le> of_int (2 ^ 53 - 1)"
    by (simp only: of_int_le_iff)
  then have "of_int (rne (v / pow2 (- 53))) * pow2 (- 53) \<le> of_int (2 ^ 53 - 1) * pow2 (- 53)"
    by (rule mult_right_mono) simp
  also have "of_int (2 ^ 53 - 1) * pow2 (- 53) = pow2 53 * pow2 (- 53) - pow2 (- 53)"
    by (simp add: p53 left_diff_distrib)
  also have "pow2 53 * pow2 (- 53) = 1" using pow2_add [of 53 "- 53"] by simp
  finally show ?thesis using v by (simp add: nearest_def u)
qed

lemma mag_Fin [simp]: "mag n (Fin r) \<longleftrightarrow> \<bar>r\<bar> \<le> pow2 n"
  by (simp add: mag_def)

lemma mag_not [simp]: "\<not> mag n PInf" "\<not> mag n NInf" "\<not> mag n NaN"
  by (simp_all add: mag_def)

lemma magE: "mag n a \<Longrightarrow> (\<And>r. a = Fin r \<Longrightarrow> \<bar>r\<bar> \<le> pow2 n \<Longrightarrow> P) \<Longrightarrow> P"
  by (cases a) simp_all

lemma mag_mono: "mag a p \<Longrightarrow> a \<le> b \<Longrightarrow> mag b p"
proof (erule magE)
  fix r assume "p = Fin r" "\<bar>r\<bar> \<le> pow2 a" "a \<le> b"
  moreover from \<open>a \<le> b\<close> have "pow2 a \<le> pow2 b" by simp
  ultimately have "p = Fin r" "\<bar>r\<bar> \<le> pow2 b" by linarith+
  then show "mag b p" by simp
qed

lemma is_double_Fin [simp]: "is_double (Fin r) \<longleftrightarrow> nearest r = r \<and> \<bar>r\<bar> < pow2 1024"
  by (simp add: is_double_def)

lemma is_double_not [simp]: "\<not> is_double PInf" "\<not> is_double NInf" "\<not> is_double NaN"
  by (simp_all add: is_double_def)

lemma is_doubleE:
  "is_double a \<Longrightarrow> (\<And>r. a = Fin r \<Longrightarrow> nearest r = r \<Longrightarrow> \<bar>r\<bar> < pow2 1024 \<Longrightarrow> P) \<Longrightarrow> P"
  by (cases a) simp_all

text \<open>round64\<close>

lemma round64_0 [simp]: "round64 0 = Fin 0"
  by (simp add: round64_def Let_def)

lemma round64_upper:
  assumes "\<bar>v\<bar> \<le> pow2 n" and "- 1022 \<le> n" and "n \<le> 1023"
  shows "round64 v = Fin (nearest v)" and "\<bar>nearest v\<bar> \<le> pow2 n"
proof -
  from nearest_upper [OF assms(1,2)] show b: "\<bar>nearest v\<bar> \<le> pow2 n" .
  from assms(3) have "pow2 n < pow2 1024" by simp
  with b have "\<bar>nearest v\<bar> < pow2 1024" by linarith
  then show "round64 v = Fin (nearest v)" by (auto simp: round64_def Let_def)
qed

lemma round64_mag:
  assumes "\<bar>v\<bar> \<le> pow2 n" and "- 1022 \<le> n" and "n \<le> 1023"
  shows "mag n (round64 v)"
  using round64_upper [OF assms] by simp

lemma round64_rep: "nearest r = r \<Longrightarrow> \<bar>r\<bar> < pow2 1024 \<Longrightarrow> round64 r = Fin r"
  by (auto simp: round64_def Let_def)

lemma round64_pow2: "- 1074 \<le> j \<Longrightarrow> j \<le> 1023 \<Longrightarrow> round64 (pow2 j) = Fin (pow2 j)"
  by (rule round64_rep) (simp_all add: nearest_pow2)

lemma round64_overflow:
  assumes "pow2 1024 \<le> v"
  shows "round64 v = PInf"
proof -
  have p: "0 < pow2 1024" by simp
  with assms have "0 \<le> v" "pow2 1024 \<le> \<bar>v\<bar>" by linarith+
  with nearest_lower [of 1024 v] nearest_nonneg [of v] have "pow2 1024 \<le> nearest v" by simp
  then show ?thesis by (simp add: round64_def Let_def)
qed

text \<open>magnitudes through the operations\<close>

lemma pow2_double: "pow2 n + pow2 n = pow2 (n + 1)"
  using pow2_add [of n 1] by (simp add: pow2_def)

lemma pow2_sum_le:
  assumes "a < n" and "b < n"
  shows "pow2 a + pow2 b \<le> pow2 n"
proof -
  from assms have "pow2 a \<le> pow2 (n - 1)" "pow2 b \<le> pow2 (n - 1)" by simp_all
  then have "pow2 a + pow2 b \<le> pow2 (n - 1) + pow2 (n - 1)" by linarith
  also have "\<dots> = pow2 n" using pow2_double [of "n - 1"] by simp
  finally show ?thesis .
qed

lemma mag_add:
  assumes "mag a p" and "mag b q" and "a < n" and "b < n" and "- 1022 \<le> n" and "n \<le> 1023"
  shows "mag n (f_add p q)"
proof -
  from assms(1) obtain r where p: "p = Fin r" and r: "\<bar>r\<bar> \<le> pow2 a" by (rule magE)
  from assms(2) obtain s where q: "q = Fin s" and s: "\<bar>s\<bar> \<le> pow2 b" by (rule magE)
  from r s pow2_sum_le [OF assms(3,4)] have "\<bar>r + s\<bar> \<le> pow2 n" by linarith
  from round64_mag [OF this assms(5,6)] show ?thesis by (simp add: p q)
qed

lemma mag_neg: "mag a p \<Longrightarrow> mag a (f_neg p)"
  by (erule magE) simp

lemma mag_sub:
  assumes "mag a p" and "mag b q" and "a < n" and "b < n" and "- 1022 \<le> n" and "n \<le> 1023"
  shows "mag n (f_sub p q)"
  unfolding f_sub_def by (rule mag_add [OF assms(1) mag_neg [OF assms(2)] assms(3-6)])

lemma mag_mul:
  assumes "mag a p" and "mag b q" and "a + b \<le> n" and "- 1022 \<le> n" and "n \<le> 1023"
  shows "mag n (f_mul p q)"
proof -
  from assms(1) obtain r where p: "p = Fin r" and r: "\<bar>r\<bar> \<le> pow2 a" by (rule magE)
  from assms(2) obtain s where q: "q = Fin s" and s: "\<bar>s\<bar> \<le> pow2 b" by (rule magE)
  have "\<bar>r * s\<bar> = \<bar>r\<bar> * \<bar>s\<bar>" by (rule abs_mult)
  also have "\<dots> \<le> pow2 a * pow2 b" by (rule mult_mono [OF r s]) simp_all
  also have "\<dots> = pow2 (a + b)" by (simp add: pow2_add)
  also have "\<dots> \<le> pow2 n" using assms(3) by simp
  finally have "\<bar>r * s\<bar> \<le> pow2 n" .
  from round64_mag [OF this assms(4,5)] show ?thesis by (simp add: p q)
qed

lemma mag_two: "mag 1 (Fin 2)"
  using pow2_nat [of 1] by simp

lemma f_mul_zero_right: "mag n a \<Longrightarrow> f_mul a (Fin 0) = Fin 0"
  by (erule magE) simp

lemma f_mul_zero_left: "mag n a \<Longrightarrow> f_mul (Fin 0) a = Fin 0"
  by (erule magE) simp

lemma f_over_zero [simp]: "f_over (Fin 0) s = Fin 0"
  by (simp add: f_over_def)

lemma f_add_zero_right: "is_double a \<Longrightarrow> f_add a (Fin 0) = a"
  by (erule is_doubleE) (simp add: round64_rep)

text \<open>The weighted sum of four equal stage values.\<close>

lemma weighted_sum_mag:
  assumes "mag 1019 a"
  shows "mag 1023 (f_add (f_add (f_add a (f_mul (Fin 2) a)) (f_mul (Fin 2) a)) a)"
proof -
  have two: "mag 1020 (f_mul (Fin 2) a)"
    by (rule mag_mul [OF mag_two assms]) simp_all
  have s1: "mag 1021 (f_add a (f_mul (Fin 2) a))"
    by (rule mag_add [OF assms two]) simp_all
  have s2: "mag 1022 (f_add (f_add a (f_mul (Fin 2) a)) (f_mul (Fin 2) a))"
    by (rule mag_add [OF s1 two]) simp_all
  show ?thesis by (rule mag_add [OF s2 assms]) simp_all
qed

lemma rk4_update_zero_dt:
  assumes "is_double p" and "mag 1019 a"
  shows "f_add p (f_over (f_mul (Fin 0)
            (f_add (f_add (f_add a (f_mul (Fin 2) a)) (f_mul (Fin 2) a)) a)) 6) = p"
  by (simp add: f_mul_zero_left [OF weighted_sum_mag [OF assms(2)]] f_add_zero_right [OF assms(1)])

lemma stage_point_zero_dt:
  assumes "is_double p" and "mag n a"
  shows "f_add p (f_over (f_mul a (Fin 0)) 2) = p" and "f_add p (f_mul a (Fin 0)) = p"
  by (simp_all add: f_mul_zero_right [OF assms(2)] f_add_zero_right [OF assms(1)])

lemma is_double_mag: "is_double a \<Longrightarrow> mag 1024 a"
  by (erule is_doubleE) simp

lemma round64_of_int: "\<bar>N\<bar> < 2 ^ 53 \<Longrightarrow> round64 (of_int N) = Fin (of_int N)"
proof -
  assume N: "\<bar>N\<bar> < 2 ^ 53"
  have n: "nearest (of_int N) = of_int N" using nearest_dyadic [OF N, of 0] by simp
  from N have "(of_int \<bar>N\<bar> :: real) < of_int (2 ^ 53)" by (simp only: of_int_less_iff)
  moreover have "(of_int (2 ^ 53) :: real) = pow2 53" using pow2_is_int [of 53] by simp
  moreover have "pow2 53 < pow2 1024" by simp
  ultimately have "\<bar>of_int N :: real\<bar> < pow2 1024" by simp
  with n show ?thesis by (rule round64_rep)
qed

lemma round64_1 [simp]: "round64 1 = Fin 1"
  using round64_of_int [of 1] by simp

lemma round64_m1 [simp]: "round64 (- 1) = Fin (- 1)"
  using round64_of_int [of "- 1"] by simp

lemma round64_2 [simp]: "round64 2 = Fin 2"
  using round64_of_int [of 2] by simp

lemma nearest_1 [simp]: "nearest 1 = 1"
  using nearest_pow2 [of 0] by simp

lemma one_less_pow2 [simp]: "0 < j \<Longrightarrow> 1 < pow2 j"
  using pow2_strict_mono [of 0 j] by simp

lemma one_le_pow2 [simp]: "0 \<le> j \<Longrightarrow> 1 \<le> pow2 j"
  using pow2_mono [of 0 j] by simp

lemma is_double_0 [simp]: "is_double (Fin 0)"
  by simp

lemma is_double_pow2: "- 1074 \<le> j \<Longrightarrow> j \<le> 1023 \<Longrightarrow> is_double (Fin (pow2 j))"
  by (simp add: nearest_pow2)

lemma is_double_1 [simp]: "is_double (Fin 1)"
  using is_double_pow2 [of 0] by simp

lemma tiny_f_bounds: "\<exists>ty. tiny_f = Fin ty \<and> pow2 (- 30) \<le> ty \<and> ty \<le> pow2 (- 29)"
proof -
  have lo: "pow2 (- 30) \<le> \<bar>1 / 10 ^ 9 :: real\<bar>"
    using pow2_neg_nat [of 30] by simp
  have hi: "\<bar>1 / 10 ^ 9 :: real\<bar> \<le> pow2 (- 29)"
    using pow2_neg_nat [of 29] by simp
  from round64_upper [OF hi] have f: "tiny_f = Fin (nearest (1 / 10 ^ 9))"
    and u: "\<bar>nearest (1 / 10 ^ 9)\<bar> \<le> pow2 (- 29)" by (simp_all add: tiny_f_def)
  have "0 \<le> nearest (1 / 10 ^ 9)" by (rule nearest_nonneg) simp
  with nearest_lower [OF lo] u
  have "pow2 (- 30) \<le> nearest (1 / 10 ^ 9)" "nearest (1 / 10 ^ 9) \<le> pow2 (- 29)"
    by simp_all
  with f show ?thesis by blast
qed

lemma zero_lt_tiny_f [simp]: "f_lt (Fin 0) tiny_f"
proof -
  from tiny_f_bounds obtain ty where ty: "tiny_f = Fin ty" and lo: "pow2 (- 30) \<le> ty" by blast
  have "0 < pow2 (- 30)" by simp
  with lo have "0 < ty" by linarith
  then show ?thesis by (simp add: ty)
qed

lemma two_pow2: "2 * pow2 j = pow2 (j + 1)"
  using pow2_add [of j 1] by (simp add: pow2_def)

lemma round64_pow2_1023 [simp]: "round64 (pow2 1023) = Fin (pow2 1023)"
  by (rule round64_pow2) simp_all

lemma round64_two_pow2_1023 [simp]: "round64 (2 * pow2 1023) = PInf"
  unfolding two_pow2 by (rule round64_overflow) simp

section \<open>Construction\<close>

text \<open>
  Claim C3 says that a parameter set with a mass \<open>\<le> 0\<close> or a negative stiffness or damping is
  rejected with an InvalidParameter error when it is constructed. The dataclass has no
  validation at all, so the claim fails (see the example after the theorem). What holds
  instead: construction returns an engine for all arguments and stores mass, stiffness and
  damping as given; a mass of zero shows only at step time, where every call of \<^verbatim>\<open>step\<close>
  raises \<^verbatim>\<open>ZeroDivisionError\<close>; with any other mass \<^verbatim>\<open>step\<close> returns normally,
  whatever the signs of the parameters; and setting the mass of an engine to zero
  afterwards (a plain attribute assignment, here a record update) is likewise met only by
  the \<^verbatim>\<open>ZeroDivisionError\<close> of the next step.
\<close>

theorem construction_never_rejects:
  "\<exists>e. SpringEngine_init ma ka ca ga la mo xa ya vxa vya ta = Inr e
       \<and> m e = ma \<and> k e = ka \<and> c e = ca
       \<and> (ma = 0 \<longrightarrow> step e dt = Inl ZeroDivisionError)
       \<and> (ma \<noteq> 0 \<longrightarrow> (\<exists>e'. step e dt = Inr (e', state_dict e'))
                    \<and> step (e\<lparr>m := 0\<rparr>) dt = Inl ZeroDivisionError)"
proof -
  let ?e = "\<lparr>m = ma, k = ka, c = ca, g = ga, L0 = la, mode = mo,
          x = xa, y = ya, vx = vxa, vy = vya, t = ta\<rparr>"
  have "ma = 0 \<longrightarrow> step ?e dt = Inl ZeroDivisionError"
    by (simp add: step_zero_mass)
  moreover have "ma \<noteq> 0 \<longrightarrow> (\<exists>e'. step ?e dt = Inr (e', state_dict e'))"
    using step_total [of ?e dt] by auto
  moreover have "step (?e\<lparr>m := 0\<rparr>) dt = Inl ZeroDivisionError"
    by (rule step_zero_mass) simp
  ultimately show ?thesis by (simp add: SpringEngine_init_def)
qed

theorem construction_never_rejects_witness:
  "(\<exists>e. SpringEngine_init 0 (- 1) (- 1) (981 / 100) 1 ''1D'' (1 / 5) 0 0 0 0 = Inr e
       \<and> m e = 0 \<and> k e = - 1 \<and> c e = - 1 \<and> step e (1 / 120) = Inl ZeroDivisionError)
   \<and> (\<exists>e. SpringEngine_init 1 (- 1) (- 1) (981 / 100) 1 ''1D'' (1 / 5) 0 0 0 0 = Inr e
       \<and> m e = 1 \<and> k e = - 1 \<and> c e = - 1 \<and> (\<exists>e'. step e (1 / 120) = Inr (e', state_dict e'))
       \<and> step (e\<lparr>m := 0\<rparr>) (1 / 120) = Inl ZeroDivisionError)"
  using construction_never_rejects [of 0 "- 1" "- 1" "981 / 100" 1 "''1D''" "1 / 5" 0 0 0 0 "1 / 120"]
    construction_never_rejects [of 1 "- 1" "- 1" "981 / 100" 1 "''1D''" "1 / 5" 0 0 0 0 "1 / 120"]
  by simp

text \<open>
  A mass of zero with negative stiffness and damping is accepted by the constructor.
\<close>

theorem invalid_parameters_accepted:
  "SpringEngine_init 0 (- 1) (- 1) (981 / 100) 1 ''1D'' (1 / 5) 0 0 0 0 =
     Inr \<lparr>m = 0, k = - 1, c = - 1, g = 981 / 100, L0 = 1, mode = ''1D'',
          x = 1 / 5, y = 0, vx = 0, vy = 0, t = 0\<rparr>"
  by (simp add: SpringEngine_init_def)

section \<open>The one-dimensional step\<close>

text \<open>
  Claim C4. In one-dimensional mode, with a positive mass, one call of \<^verbatim>\<open>step\<close> computes
  exactly the Runge-Kutta composition of the specification for the acceleration
  \<open>a(x, v) = (-k x - c v) / m\<close>: the new \<open>(x, vx)\<close> is \<open>rk4_spec\<close> of the derivative
  function at the old \<open>(x, vx)\<close>, where the position uses the velocity carried at each
  stage and the velocity uses the acceleration; \<open>t\<close> advances by \<open>dt\<close>, the call returns
  the new state as its dictionary and raises nothing.
\<close>

theorem step_1d_is_rk4:
  assumes "mode e = ''1D''" and "0 < m e"
  shows "step e dt =
     (let s' = rk4_spec (deriv_1d_spec (m e) (k e) (c e)) (x e, vx e) dt;
          e' = e\<lparr>x := fst s', vx := snd s', t := t e + dt\<rparr>
      in Inr (e', state_dict e'))"
proof -
  from assms have nz: "m e \<noteq> 0" by simp
  have half: "dt / 2 * p = p * dt / 2" for p by simp
  have sixth: "dt / 6 * p = dt * p / 6" for p by simp
  have spec: "rk4_spec (deriv_1d_spec (m e) (k e) (c e)) (x e, vx e) dt =
    (let k1_v = (- k e * x e - c e * vx e) / m e;
         k1_x = vx e;
         k2_v = (- k e * (x e + k1_x * dt / 2) - c e * (vx e + k1_v * dt / 2)) / m e;
         k2_x = vx e + k1_v * dt / 2;
         k3_v = (- k e * (x e + k2_x * dt / 2) - c e * (vx e + k2_v * dt / 2)) / m e;
         k3_x = vx e + k2_v * dt / 2;
         k4_v = (- k e * (x e + k3_x * dt) - c e * (vx e + k3_v * dt)) / m e;
         k4_x = vx e + k3_v * dt
     in (x e + dt * (k1_x + 2 * k2_x + 2 * k3_x + k4_x) / 6,
         vx e + dt * (k1_v + 2 * k2_v + 2 * k3_v + k4_v) / 6))"
    unfolding rk4_spec_def deriv_1d_spec_def vadd_def vscale_def Let_def fst_conv snd_conv half sixth
    by (simp only: mult.commute [of dt] add.assoc)
  show ?thesis
    unfolding spec
    using assms(1)
    by (simp add: step_def step_1d_def force_nonzero [OF nz] Let_def)
qed

theorem step_1d_is_rk4_witness:
  "mode demo_1d = ''1D'' \<and> 0 < m demo_1d \<and>
   step demo_1d 1 =
     Inr (demo_1d\<lparr>x := - 1 / 3, vx := - 4 / 3, t := 1\<rparr>,
          [(''x'', - 1 / 3), (''y'', 0), (''vx'', - 4 / 3), (''vy'', 0), (''t'', 1)])"
proof -
  have md: "mode demo_1d = ''1D''" and ms: "0 < m demo_1d"
    by (simp_all add: demo_1d_def)
  show ?thesis
    using step_1d_is_rk4 [OF md ms, of 1]
    by (simp add: demo_1d_def rk4_spec_def deriv_1d_spec_def vadd_def vscale_def state_dict_def)
qed

section \<open>The vector force law\<close>

text \<open>
  Claim C5. With a positive mass, \<^verbatim>\<open>forces\<close> at a point \<open>(x, y, vx, vy)\<close> returns the
  accelerations of the vector force law: \<open>r = hypot(x, y)\<close>; the unit vector is \<open>(0, 1)\<close>
  when \<open>r < 1e-9\<close> and \<open>(x/r, y/r)\<close> otherwise; \<open>F_spring = -k (r - L0)\<close>; the damping uses
  the radial velocity \<open>v_r = vx ux + vy uy\<close> only, \<open>F_damp = -c v_r\<close>; and
  \<open>ax = (F_spring + F_damp) ux / m\<close>, \<open>ay = ((F_spring + F_damp) uy + m g) / m\<close>, the gravity
  term not being scaled by the unit vector. Nothing is raised.
\<close>

theorem forces_is_vector_force_law:
  assumes "0 < m e"
  shows "forces e px py pvx pvy =
     (let r = math_hypot px py;
          ux = (if r < tiny then 0 else px / r);
          uy = (if r < tiny then 1 else py / r);
          F_spring = - k e * (r - L0 e);
          v_r = pvx * ux + pvy * uy;
          F_damp = - c e * v_r
      in Inr ((F_spring + F_damp) * ux / m e, ((F_spring + F_damp) * uy + m e * g e) / m e))"
proof -
  from assms have nz: "m e \<noteq> 0" by simp
  show ?thesis
    unfolding forces_def Let_def unit_vector_total
    by (simp add: fdiv_nonzero [OF nz])
qed

theorem forces_is_vector_force_law_witness:
  "0 < m demo_vector \<and>
   forces demo_vector 3 4 1 2 = Inr (- 1233 / 100, - 663 / 100) \<and>
   forces demo_vector 0 0 1 2 = Inr (0, 1431 / 100)"
proof -
  have ms: "0 < m demo_vector" by (simp add: demo_vector_def)
  show ?thesis
    using forces_is_vector_force_law [OF ms, of 3 4 1 2]
      forces_is_vector_force_law [OF ms, of 0 0 1 2]
    by (simp add: math_hypot_3_4 math_hypot_0_0 demo_vector_def tiny_def Let_def)
qed

section \<open>Properties of a step in either mode\<close>

text \<open>
  Claim C9. With a positive mass, in either mode, a call of \<^verbatim>\<open>step\<close> with time step \<open>dt\<close>
  returns a state whose \<open>t\<close> is the old \<open>t + dt\<close> (also under the key \<^verbatim>\<open>"t"\<close> of the
  returned dictionary), and \<open>n\<close> calls in a row with the same \<open>dt\<close> all return and leave
  \<open>t\<close> at the old \<open>t + n dt\<close>: from \<open>t = 0\<close>, the elapsed time is \<open>n dt\<close>.
\<close>

theorem step_advances_time:
  assumes "0 < m e"
  shows "(\<exists>e'. step e dt = Inr (e', state_dict e') \<and> t e' = t e + dt
            \<and> map_of (state_dict e') ''t'' = Some (t e + dt))
       \<and> (\<exists>e'. run_steps n dt e = Inr e' \<and> t e' = t e + real n * dt)"
proof -
  from assms have nz: "m e \<noteq> 0" by simp
  from step_total [OF nz, of dt] obtain e1 where
    s: "step e dt = Inr (e1, state_dict e1)" and t1: "t e1 = t e + dt" by blast
  have "map_of (state_dict e1) ''t'' = Some (t e + dt)"
    by (simp add: state_dict_def t1)
  with s t1 have first: "\<exists>e'. step e dt = Inr (e', state_dict e') \<and> t e' = t e + dt
            \<and> map_of (state_dict e') ''t'' = Some (t e + dt)" by blast
  from run_steps_time [OF nz, of n dt] have
    "\<exists>e'. run_steps n dt e = Inr e' \<and> t e' = t e + real n * dt" by blast
  with first show ?thesis by blast
qed

theorem step_advances_time_witness:
  "0 < m demo_vector \<and> t demo_vector = 0 \<and>
   (\<exists>e'. step demo_vector (1 / 120) = Inr (e', state_dict e') \<and> t e' = 1 / 120) \<and>
   (\<exists>e'. run_steps 120 (1 / 120) demo_vector = Inr e' \<and> t e' = 1)"
proof -
  have a: "0 < m demo_vector" and b: "t demo_vector = 0"
    by (simp_all add: demo_vector_def)
  show ?thesis
    using step_advances_time [OF a, of "1 / 120" 120] a b by auto
qed

text \<open>
  Claim C10. For every mode string other than \<^verbatim>\<open>"1D"\<close>, recognised or not:
  \<^verbatim>\<open>step\<close> runs the vector integrator \<^verbatim>\<open>_step_2d\<close> (and so the vector force law
  \<^verbatim>\<open>forces\<close>) and returns its state as the dictionary, which is also what it does for the
  same engine in mode \<^verbatim>\<open>"VECTOR"\<close> (up to the mode string the engine keeps);
  \<^verbatim>\<open>get_analytical_solution\<close> takes the radial initial conditions \<open>x0 = hypot(x, y)\<close> and
  \<open>v0 = (vx x + vy y) / x0\<close> when \<open>x0 > 1e-9\<close>, else \<open>0\<close>, and from them computes the
  descriptor of the regime, as it does in mode \<^verbatim>\<open>"VECTOR"\<close>. The mode raises no error of its
  own: with a mass other than zero \<^verbatim>\<open>_step_2d\<close> and \<^verbatim>\<open>step\<close> return.
\<close>

theorem unrecognised_mode_is_vector:
  assumes "mode e \<noteq> ''1D''"
  shows "step e dt = bind_err (step_2d e dt) (\<lambda>e'. Inr (e', state_dict e'))
       \<and> step e dt =
           map_sum id (\<lambda>(e', d). (e'\<lparr>mode := mode e\<rparr>, d)) (step (e\<lparr>mode := ''VECTOR''\<rparr>) dt)
       \<and> get_analytical_solution e =
           bind_err (fdiv (k e) (m e)) (\<lambda>q.
           bind_err (math_sqrt q) (\<lambda>omega_n.
           bind_err (math_sqrt (k e * m e)) (\<lambda>s.
           bind_err (fdiv (c e) (2 * s)) (\<lambda>zeta.
           let x0 = math_hypot (x e) (y e);
               v0 = (if x0 > tiny then (vx e * x e + vy e * y e) / x0 else 0)
           in if zeta < 1 then
                bind_err (math_sqrt (1 - zeta ^ 2)) (\<lambda>sq.
                bind_err (fdiv (v0 + zeta * omega_n * x0) (omega_n * sq)) (\<lambda>B.
                Inr [(''case'', PStr ''underdamped''), (''omega_n'', PFloat omega_n),
                     (''omega_d'', PFloat (omega_n * sq)), (''zeta'', PFloat zeta),
                     (''A'', PFloat x0), (''B'', PFloat B)]))
              else if \<bar>zeta - 1\<bar> < tiny then
                Inr [(''case'', PStr ''critical''), (''omega_n'', PFloat omega_n),
                     (''zeta'', PFloat zeta), (''A'', PFloat x0),
                     (''B'', PFloat (v0 + omega_n * x0))]
              else
                bind_err (math_sqrt (zeta ^ 2 - 1)) (\<lambda>sqrt_term.
                let r1 = - omega_n * (zeta - sqrt_term);
                    r2 = - omega_n * (zeta + sqrt_term);
                    det = r2 - r1
                in bind_err (fdiv (r2 * x0 - v0) det) (\<lambda>A.
                   bind_err (fdiv (v0 - r1 * x0) det) (\<lambda>B.
                   Inr [(''case'', PStr ''overdamped''), (''omega_n'', PFloat omega_n),
                        (''zeta'', PFloat zeta), (''r1'', PFloat r1), (''r2'', PFloat r2),
                        (''A'', PFloat A), (''B'', PFloat B)])))))))
       \<and> get_analytical_solution e = get_analytical_solution (e\<lparr>mode := ''VECTOR''\<rparr>)
       \<and> (m e \<noteq> 0 \<longrightarrow> (\<exists>e'. step_2d e dt = Inr e' \<and> step e dt = Inr (e', state_dict e')))"
proof -
  have e: "e\<lparr>mode := ''VECTOR''\<rparr>\<lparr>mode := mode e\<rparr> = e" by simp
  have s1: "step e dt = bind_err (step_2d e dt) (\<lambda>e'. Inr (e', state_dict e'))"
    using assms by (simp add: step_def)
  have "step_2d e dt = map_sum id (\<lambda>e'. e'\<lparr>mode := mode e\<rparr>) (step_2d (e\<lparr>mode := ''VECTOR''\<rparr>) dt)"
    using step_2d_mode_irrelevant [where e = "e\<lparr>mode := ''VECTOR''\<rparr>" and s = "mode e" and dt = dt] by (simp only: e)
  then have s2: "step e dt =
           map_sum id (\<lambda>(e', d). (e'\<lparr>mode := mode e\<rparr>, d)) (step (e\<lparr>mode := ''VECTOR''\<rparr>) dt)"
    using assms by (cases "step_2d (e\<lparr>mode := ''VECTOR''\<rparr>) dt") (simp_all add: step_def state_dict_def)
  have ic: "(if mode e = ''1D'' then Inr (x e, vx e)
    else if math_hypot (x e) (y e) > tiny
          then bind_err (fdiv (vx e * x e + vy e * y e) (math_hypot (x e) (y e)))
                 (\<lambda>v0. Inr (math_hypot (x e) (y e), v0))
          else Inr (math_hypot (x e) (y e), 0))
     = Inr (math_hypot (x e) (y e),
            if math_hypot (x e) (y e) > tiny
            then (vx e * x e + vy e * y e) / math_hypot (x e) (y e) else 0)"
    using assms tiny_pos by (simp add: Let_def fdiv_def)
  have g1: "get_analytical_solution e =
           bind_err (fdiv (k e) (m e)) (\<lambda>q.
           bind_err (math_sqrt q) (\<lambda>omega_n.
           bind_err (math_sqrt (k e * m e)) (\<lambda>s.
           bind_err (fdiv (c e) (2 * s)) (\<lambda>zeta.
           let x0 = math_hypot (x e) (y e);
               v0 = (if x0 > tiny then (vx e * x e + vy e * y e) / x0 else 0)
           in if zeta < 1 then
                bind_err (math_sqrt (1 - zeta ^ 2)) (\<lambda>sq.
                bind_err (fdiv (v0 + zeta * omega_n * x0) (omega_n * sq)) (\<lambda>B.
                Inr [(''case'', PStr ''underdamped''), (''omega_n'', PFloat omega_n),
                     (''omega_d'', PFloat (omega_n * sq)), (''zeta'', PFloat zeta),
                     (''A'', PFloat x0), (''B'', PFloat B)]))
              else if \<bar>zeta - 1\<bar> < tiny then
                Inr [(''case'', PStr ''critical''), (''omega_n'', PFloat omega_n),
                     (''zeta'', PFloat zeta), (''A'', PFloat x0),
                     (''B'', PFloat (v0 + omega_n * x0))]
              else
                bind_err (math_sqrt (zeta ^ 2 - 1)) (\<lambda>sqrt_term.
                let r1 = - omega_n * (zeta - sqrt_term);
                    r2 = - omega_n * (zeta + sqrt_term);
                    det = r2 - r1
                in bind_err (fdiv (r2 * x0 - v0) det) (\<lambda>A.
                   bind_err (fdiv (v0 - r1 * x0) det) (\<lambda>B.
                   Inr [(''case'', PStr ''overdamped''), (''omega_n'', PFloat omega_n),
                        (''zeta'', PFloat zeta), (''r1'', PFloat r1), (''r2'', PFloat r2),
                        (''A'', PFloat A), (''B'', PFloat B)])))))))"
    unfolding get_analytical_solution_def Let_def ic bind_err_Inr prod.case
    by (rule refl)
  have g2: "get_analytical_solution e = get_analytical_solution (e\<lparr>mode := ''VECTOR''\<rparr>)"
    using assms by (simp add: get_analytical_solution_def Let_def)
  have s3: "m e \<noteq> 0 \<longrightarrow> (\<exists>e'. step_2d e dt = Inr e' \<and> step e dt = Inr (e', state_dict e'))"
    using step_2d_total [of e dt] by (auto simp: s1)
  from s1 s2 g1 g2 s3 show ?thesis by (intro conjI)
qed

theorem unrecognised_mode_is_vector_witness:
  "mode demo_other_mode \<noteq> ''1D'' \<and> m demo_other_mode \<noteq> 0
   \<and> step demo_other_mode (1 / 120)
         = bind_err (step_2d demo_other_mode (1 / 120)) (\<lambda>e'. Inr (e', state_dict e'))
   \<and> get_analytical_solution demo_other_mode
         = get_analytical_solution (demo_other_mode\<lparr>mode := ''VECTOR''\<rparr>)
   \<and> (\<exists>e'. step_2d demo_other_mode (1 / 120) = Inr e'
          \<and> step demo_other_mode (1 / 120) = Inr (e', state_dict e'))"
proof -
  have md: "mode demo_other_mode \<noteq> ''1D''" and ms: "m demo_other_mode \<noteq> 0"
    by (simp_all add: demo_other_mode_def)
  note a = unrecognised_mode_is_vector [OF md, of "1 / 120"]
  from a have a1: "step demo_other_mode (1 / 120)
         = bind_err (step_2d demo_other_mode (1 / 120)) (\<lambda>e'. Inr (e', state_dict e'))"
    by (rule conjunct1)
  from a have a2: "get_analytical_solution demo_other_mode
         = get_analytical_solution (demo_other_mode\<lparr>mode := ''VECTOR''\<rparr>)"
    by blast
  from a ms have a3: "\<exists>e'. step_2d demo_other_mode (1 / 120) = Inr e'
          \<and> step demo_other_mode (1 / 120) = Inr (e', state_dict e')"
    by blast
  from md ms a1 a2 a3 show ?thesis by (intro conjI)
qed

section \<open>The analytical solution\<close>

text \<open>
  Claim C1 says that every damping ratio with \<open>\<bar>\<zeta> - 1\<bar> < 1e-9\<close> is classified as critical,
  ahead of both other branches. The source tests \<^verbatim>\<open>zeta < 1.0\<close> first, so the half of the
  band below 1 never reaches the test \<^verbatim>\<open>abs(zeta - 1.0) < 1e-9\<close>: for \<open>m = 1\<close>, \<open>k = 1\<close>,
  \<open>c = 1.9999999999\<close> the ratio is \<open>0.99999999995\<close>, inside the band, and the reported case
  is \<^verbatim>\<open>"underdamped"\<close>.
\<close>

theorem near_critical_below_is_underdamped:
  "\<bar>c demo_near_critical / (2 * sqrt (k demo_near_critical * m demo_near_critical)) - 1\<bar> < tiny
   \<and> reported_case (get_analytical_solution demo_near_critical) = Some ''underdamped''"
proof -
  have h: "0 < m demo_near_critical" "0 < k demo_near_critical" "0 \<le> c demo_near_critical"
    by (simp_all add: demo_near_critical_def)
  have z: "c demo_near_critical / (2 * sqrt (k demo_near_critical * m demo_near_critical))
      = 19999999999 / 20000000000"
    by (simp add: demo_near_critical_def)
  show ?thesis
    unfolding get_analytical_solution_value [OF h] z
    by (simp add: tiny_def reported_case_def Let_def)
qed

text \<open>The half of the band from 1 upwards is reported as critical.\<close>

lemma critical_band_above:
  assumes "0 < m e" and "0 < k e" and "0 \<le> c e"
    and "1 \<le> c e / (2 * sqrt (k e * m e))" and "c e / (2 * sqrt (k e * m e)) < 1 + tiny"
  shows "reported_case (get_analytical_solution e) = Some ''critical''"
proof -
  from assms(4,5) have "\<not> c e / (2 * sqrt (k e * m e)) < 1"
    and "\<bar>c e / (2 * sqrt (k e * m e)) - 1\<bar> < tiny" by simp_all
  then show ?thesis
    unfolding get_analytical_solution_value [OF assms(1-3)]
    by (simp add: Let_def reported_case_def)
qed

section \<open>A step with a zero time step, over floats\<close>

text \<open>
  Claim C8 says that \<^verbatim>\<open>step\<close> with \<open>dt = 0\<close> leaves every field of every finite state
  unchanged. Over floats that fails once a velocity or an acceleration is within a factor
  of six of the largest double: the weighted sum of the four stage values overflows to an
  infinity, \<^verbatim>\<open>0.0 * inf\<close> is NaN, and NaN is stored (see the example after the witness:
  \<open>vx = 2^1023\<close> turns \<open>x\<close> into NaN). What holds: for a state of finite doubles whose
  velocity, and whose acceleration at the state (the value of \<^verbatim>\<open>force\<close>, or of \<^verbatim>\<open>forces\<close>
  in vector mode), are at most \<open>2^1019\<close> in magnitude, \<^verbatim>\<open>step\<close> with \<open>dt = 0\<close> raises nothing,
  returns the dictionary of the old state and leaves \<open>x\<close>, \<open>y\<close>, \<open>vx\<close>, \<open>vy\<close> and \<open>t\<close>
  unchanged, in both modes.
\<close>

theorem step_f_dt_zero_noop:
  assumes dbl: "is_double (x_f e)" "is_double (y_f e)" "is_double (vx_f e)" "is_double (vy_f e)"
      "is_double (t_f e)"
    and one: "mode_f e = ''1D'' \<longrightarrow>
        mag 1019 (vx_f e) \<and> (\<exists>a. force_f e (x_f e) (vx_f e) = Inr a \<and> mag 1019 a)"
    and two: "mode_f e \<noteq> ''1D'' \<longrightarrow>
        mag 1019 (vx_f e) \<and> mag 1019 (vy_f e) \<and>
        (\<exists>ax ay. forces_f e (x_f e) (y_f e) (vx_f e) (vy_f e) = Inr (ax, ay)
            \<and> mag 1019 ax \<and> mag 1019 ay)"
  shows "step_f e (Fin 0) = Inr (e, state_dict_f e)"
proof (cases "mode_f e = ''1D''")
  case True
  with one obtain a where v: "mag 1019 (vx_f e)"
    and f: "force_f e (x_f e) (vx_f e) = Inr a" and a: "mag 1019 a" by blast
  note px = stage_point_zero_dt [OF dbl(1) v]
  note pv = stage_point_zero_dt [OF dbl(3) a]
  have "step_1d_f e (Fin 0) = Inr e"
    by (simp add: step_1d_f_def px pv f Let_def rk4_update_zero_dt [OF dbl(1) v]
        rk4_update_zero_dt [OF dbl(3) a] f_add_zero_right [OF dbl(5)])
  with True show ?thesis by (simp add: step_f_def)
next
  case False
  with two obtain ax ay where v: "mag 1019 (vx_f e)" "mag 1019 (vy_f e)"
    and f: "forces_f e (x_f e) (y_f e) (vx_f e) (vy_f e) = Inr (ax, ay)"
    and a: "mag 1019 ax" "mag 1019 ay" by blast
  note px = stage_point_zero_dt [OF dbl(1) v(1)]
  note py = stage_point_zero_dt [OF dbl(2) v(2)]
  note pvx = stage_point_zero_dt [OF dbl(3) a(1)]
  note pvy = stage_point_zero_dt [OF dbl(4) a(2)]
  have "step_2d_f e (Fin 0) = Inr e"
    by (simp add: step_2d_f_def px py pvx pvy f Let_def
        rk4_update_zero_dt [OF dbl(1) v(1)] rk4_update_zero_dt [OF dbl(2) v(2)]
        rk4_update_zero_dt [OF dbl(3) a(1)] rk4_update_zero_dt [OF dbl(4) a(2)]
        f_add_zero_right [OF dbl(5)])
  with False show ?thesis by (simp add: step_f_def)
qed

theorem step_f_dt_zero_noop_witness:
  "is_double (x_f demo_slow_1d) \<and> is_double (vx_f demo_slow_1d) \<and> is_double (t_f demo_slow_1d)
   \<and> mode_f demo_slow_1d = ''1D'' \<and> mag 1019 (vx_f demo_slow_1d)
   \<and> force_f demo_slow_1d (x_f demo_slow_1d) (vx_f demo_slow_1d) = Inr (Fin 0)
   \<and> step_f demo_slow_1d (Fin 0) = Inr (demo_slow_1d, state_dict_f demo_slow_1d)
   \<and> mode_f demo_slow_2d \<noteq> ''1D'' \<and> mag 1019 (vx_f demo_slow_2d) \<and> mag 1019 (vy_f demo_slow_2d)
   \<and> forces_f demo_slow_2d (x_f demo_slow_2d) (y_f demo_slow_2d) (vx_f demo_slow_2d)
         (vy_f demo_slow_2d) = Inr (Fin 0, Fin 1)
   \<and> step_f demo_slow_2d (Fin 0) = Inr (demo_slow_2d, state_dict_f demo_slow_2d)"
proof -
  have one_small: "(1::real) \<le> pow2 1019"
    using pow2_mono [of 0 1019] by simp
  have d1: "is_double (x_f demo_slow_1d)" "is_double (y_f demo_slow_1d)"
      "is_double (vx_f demo_slow_1d)" "is_double (vy_f demo_slow_1d)" "is_double (t_f demo_slow_1d)"
    by (simp_all add: demo_slow_1d_def)
  have m1: "mode_f demo_slow_1d = ''1D''" by (simp add: demo_slow_1d_def)
  have v1: "mag 1019 (vx_f demo_slow_1d)" using one_small by (simp add: demo_slow_1d_def)
  have f1: "force_f demo_slow_1d (x_f demo_slow_1d) (vx_f demo_slow_1d) = Inr (Fin 0)"
    by (simp add: force_f_def demo_slow_1d_def f_sub_def)
  have h1: "mode_f demo_slow_1d = ''1D'' \<longrightarrow> mag 1019 (vx_f demo_slow_1d) \<and>
      (\<exists>a. force_f demo_slow_1d (x_f demo_slow_1d) (vx_f demo_slow_1d) = Inr a \<and> mag 1019 a)"
    using v1 f1 by simp
  have h1': "mode_f demo_slow_1d \<noteq> ''1D'' \<longrightarrow>
        mag 1019 (vx_f demo_slow_1d) \<and> mag 1019 (vy_f demo_slow_1d) \<and>
        (\<exists>ax ay. forces_f demo_slow_1d (x_f demo_slow_1d) (y_f demo_slow_1d) (vx_f demo_slow_1d)
             (vy_f demo_slow_1d) = Inr (ax, ay) \<and> mag 1019 ax \<and> mag 1019 ay)"
    using m1 by simp
  have d2: "is_double (x_f demo_slow_2d)" "is_double (y_f demo_slow_2d)"
      "is_double (vx_f demo_slow_2d)" "is_double (vy_f demo_slow_2d)" "is_double (t_f demo_slow_2d)"
    by (simp_all add: demo_slow_2d_def)
  have m2: "mode_f demo_slow_2d \<noteq> ''1D''" by (simp add: demo_slow_2d_def)
  have v2: "mag 1019 (vx_f demo_slow_2d)" "mag 1019 (vy_f demo_slow_2d)"
    using one_small by (simp_all add: demo_slow_2d_def)
  have f2: "forces_f demo_slow_2d (x_f demo_slow_2d) (y_f demo_slow_2d) (vx_f demo_slow_2d)
         (vy_f demo_slow_2d) = Inr (Fin 0, Fin 1)"
    by (simp add: forces_f_def demo_slow_2d_def f_sub_def Let_def)
  have h2: "mode_f demo_slow_2d \<noteq> ''1D'' \<longrightarrow>
        mag 1019 (vx_f demo_slow_2d) \<and> mag 1019 (vy_f demo_slow_2d) \<and>
        (\<exists>ax ay. forces_f demo_slow_2d (x_f demo_slow_2d) (y_f demo_slow_2d) (vx_f demo_slow_2d)
             (vy_f demo_slow_2d) = Inr (ax, ay) \<and> mag 1019 ax \<and> mag 1019 ay)"
    using v2 f2 one_small by simp
  have h2': "mode_f demo_slow_2d = ''1D'' \<longrightarrow> mag 1019 (vx_f demo_slow_2d) \<and>
      (\<exists>a. force_f demo_slow_2d (x_f demo_slow_2d) (vx_f demo_slow_2d) = Inr a \<and> mag 1019 a)"
    using m2 by simp
  note r1 = step_f_dt_zero_noop [OF d1 h1 h1']
  note r2 = step_f_dt_zero_noop [OF d2 h2' h2]
  from d1 m1 v1 f1 r1 m2 v2 f2 r2 show ?thesis by (intro conjI)
qed

text \<open>
  A finite state with \<open>m = 1\<close>, \<open>k = 1\<close>, \<open>c = 0\<close>, \<open>x = 0\<close> and \<open>vx = 2^1023\<close>: the step
  with \<open>dt = 0\<close> stores NaN in \<open>x\<close>.
\<close>

theorem dt_zero_overflow_gives_nan:
  "step_f demo_fast_1d (Fin 0) =
     Inr (demo_fast_1d\<lparr>x_f := NaN\<rparr>,
          [(''x'', NaN), (''y'', Fin 0), (''vx'', Fin (pow2 1023)), (''vy'', Fin 0),
           (''t'', Fin 0)])"
proof -
  have f: "force_f demo_fast_1d (Fin 0) (Fin (pow2 1023)) = Inr (Fin 0)"
    by (simp add: force_f_def demo_fast_1d_def f_sub_def)
  have "step_1d_f demo_fast_1d (Fin 0) = Inr (demo_fast_1d\<lparr>x_f := NaN\<rparr>)"
    unfolding step_1d_f_def
    by (simp add: demo_fast_1d_def f [unfolded demo_fast_1d_def] Let_def f_over_def)
  then show ?thesis by (simp add: step_f_def demo_fast_1d_def state_dict_f_def)
qed

end
